theory Spec2Isabelle
  imports Main "HOL-Library.Word"
begin

section \<open>Data model\<close>

text \<open>
  The tensor layer (\<^verbatim>\<open>cytorch/tensor.c\<close>) and the variable layer (the autograd atomic
  operations) work on objects through pointers. The model keeps the pointers: an
  address is a natural number, \<open>NULL\<close> is the address 0, and the heap has one table per
  kind of object (entry buffers, \<^verbatim>\<open>tensor_t\<close> structs, \<^verbatim>\<open>variable_t\<close> structs) and an
  allocation mark \<open>brk\<close>, the highest address given out: every allocation returns the
  next address, so a new object never shares its address with an older one and is never
  at \<open>NULL\<close>. A table holds the live objects only: an object whose lifetime has ended is
  removed from its table, and its address is not given out again.

  \<^verbatim>\<open>tensor_size_t\<close> is printed with \<^verbatim>\<open>%llu\<close>: an unsigned 64-bit integer, so
  \<^verbatim>\<open>num_rows * num_columns\<close> wraps around; \<^verbatim>\<open>size_t\<close> is 64 bits wide too.
  \<^verbatim>\<open>tensor_entry_t\<close> is the type parameter \<open>'a\<close>; each function asks of it only the
  operations it uses (\<open>0\<close>, \<open>+\<close>, \<open>-\<close>, \<open>*\<close>), and no law of arithmetic.

  The leading underscore of the C names is dropped (\<^verbatim>\<open>_tensor_add\<close> is \<open>tensor_add\<close>);
  where that would clash with the public function of the same name, the internal one
  has the suffix \<open>_impl\<close> (\<^verbatim>\<open>_add\<close> is \<open>add_impl\<close>). The public \<^verbatim>\<open>abs\<close> and
  \<^verbatim>\<open>sum\<close> are \<open>abs_variable\<close> and \<open>sum_variable\<close>, and a parameter named like a
  record field (\<^verbatim>\<open>tensor\<close>, \<^verbatim>\<open>gradient\<close>) has a prime.
\<close>

type_synonym addr = nat

definition NULL :: addr where
  "NULL = 0"

type_synonym tensor_size_t = "64 word"

type_synonym size_t = "64 word"

datatype error = ShapeMismatch | IndexOutOfRange | InvalidPointer

record tensor_t =
  data :: addr
  num_rows :: tensor_size_t
  num_columns :: tensor_size_t

text \<open>
  Modelled from the spec: \<^verbatim>\<open>grad.h\<close> is not among the sources. A GradMeta records
  the operand Variables of the producing operation (none for a leaf, one for a unary
  operation, two for a binary one) and one backward function per operand. A function
  pointer is modelled by a tag naming the function it points to.
\<close>

datatype binary_backwards_fn =
  Add_grad_backwards | Subtract_grad_backwards | Multiply_grad_backwards

datatype unary_backwards_fn = Abs_grad_backwards | Sum_grad_backwards

datatype grad_meta_t =
  Leaf_meta
  | Unary_meta addr unary_backwards_fn
  | Binary_meta addr addr binary_backwards_fn binary_backwards_fn

record variable_t =
  tensor :: addr
  gradient :: addr
  grad_meta :: grad_meta_t

record 'a heap =
  buffers :: "addr \<rightharpoonup> 'a list"
  tensors :: "addr \<rightharpoonup> tensor_t"
  variables :: "addr \<rightharpoonup> variable_t"
  brk :: addr

section \<open>Programs: a heap in, a result or an error and a heap out\<close>

text \<open>
  A failed assertion is an error value, and so is every access whose behaviour C leaves
  undefined; the heap at the point of the failure is returned with it, so what a failing
  call has written is visible.
\<close>

type_synonym ('a, 'r) prog = "'a heap \<Rightarrow> (error + 'r) \<times> 'a heap"

definition ret :: "'r \<Rightarrow> ('a, 'r) prog" where
  "ret x h = (Inr x, h)"

definition raise :: "error \<Rightarrow> ('a, 'r) prog" where
  "raise e h = (Inl e, h)"

definition bind_prog :: "('a, 'r) prog \<Rightarrow> ('r \<Rightarrow> ('a, 's) prog) \<Rightarrow> ('a, 's) prog" where
  "bind_prog f g h = (case f h of (Inl e, h') \<Rightarrow> (Inl e, h') | (Inr x, h') \<Rightarrow> g x h')"

subsection \<open>Memory primitives\<close>

text \<open>
  Reading through a pointer that is \<open>NULL\<close> or holds no live object of the expected
  kind (a dangling or wild pointer) is undefined behaviour in C: the error
  \<open>InvalidPointer\<close>.
\<close>

definition load_tensor :: "addr \<Rightarrow> ('a, tensor_t) prog" where
  "load_tensor p h =
     (if p = NULL then (Inl InvalidPointer, h)
      else case tensors h p of None \<Rightarrow> (Inl InvalidPointer, h) | Some T \<Rightarrow> (Inr T, h))"

definition load_variable :: "addr \<Rightarrow> ('a, variable_t) prog" where
  "load_variable p h =
     (if p = NULL then (Inl InvalidPointer, h)
      else case variables h p of None \<Rightarrow> (Inl InvalidPointer, h) | Some V \<Rightarrow> (Inr V, h))"

definition load_buffer :: "addr \<Rightarrow> ('a, 'a list) prog" where
  "load_buffer p h =
     (if p = NULL then (Inl InvalidPointer, h)
      else case buffers h p of None \<Rightarrow> (Inl InvalidPointer, h) | Some xs \<Rightarrow> (Inr xs, h))"

text \<open>Writing the entries of a buffer that has been read (\<open>load_buffer\<close>) before.\<close>

definition store_buffer :: "addr \<Rightarrow> 'a list \<Rightarrow> ('a, unit) prog" where
  "store_buffer p xs h = (Inr (), h\<lparr>buffers := (buffers h)(p \<mapsto> xs)\<rparr>)"

text \<open>A new buffer with the given entries, at the next address.\<close>

definition new_buffer :: "'a list \<Rightarrow> ('a, addr) prog" where
  "new_buffer xs h =
     (Inr (Suc (brk h)), h\<lparr>buffers := (buffers h)(Suc (brk h) \<mapsto> xs), brk := Suc (brk h)\<rparr>)"

text \<open>
  \<^verbatim>\<open>calloc(n, size)\<close>: \<open>NULL\<close> if the byte count \<open>n * size\<close> does not fit \<^verbatim>\<open>size_t\<close>,
  and otherwise a new buffer of \<open>n\<close> entries, all zero (the model has no other bound on
  memory; a request for no entries gets an empty buffer of its own).
\<close>

definition calloc :: "tensor_size_t \<Rightarrow> size_t \<Rightarrow> ('a::zero, addr) prog" where
  "calloc n size' =
     (if unat n * unat size' < 2 ^ 64 then new_buffer (replicate (unat n) 0) else ret NULL)"

text \<open>
  The compound literal \<^verbatim>\<open>(tensor_t) {...}\<close> in the body of \<^verbatim>\<open>_new_tensor\<close>: a
  \<^verbatim>\<open>tensor_t\<close> object with automatic storage, at the next address. Its lifetime ends
  when the function returns (\<open>end_lifetime\<close>): the object is no more, and a pointer to
  it dangles.
\<close>

definition compound_literal :: "tensor_t \<Rightarrow> ('a, addr) prog" where
  "compound_literal T h =
     (Inr (Suc (brk h)), h\<lparr>tensors := (tensors h)(Suc (brk h) \<mapsto> T), brk := Suc (brk h)\<rparr>)"

definition end_lifetime :: "addr \<Rightarrow> ('a, unit) prog" where
  "end_lifetime p h = (Inr (), h\<lparr>tensors := (tensors h)(p := None)\<rparr>)"

text \<open>
  \<^verbatim>\<open>malloc(sizeof(variable_t))\<close> reserves the next address (the model has no bound on
  memory); the object is there once its fields have been assigned (\<open>store_variable\<close>).
\<close>

definition malloc_variable :: "('a, addr) prog" where
  "malloc_variable h = (Inr (Suc (brk h)), h\<lparr>brk := Suc (brk h)\<rparr>)"

definition store_variable :: "addr \<Rightarrow> variable_t \<Rightarrow> ('a, unit) prog" where
  "store_variable p V h = (Inr (), h\<lparr>variables := (variables h)(p \<mapsto> V)\<rparr>)"

text \<open>
  \<^verbatim>\<open>tensor_entry_t\<close> is printed with \<^verbatim>\<open>%f\<close>: a double, eight bytes. \<^verbatim>\<open>memcpy\<close>
  copies whole entries: \<open>n_bytes div sizeof_tensor_entry_t\<close> of them, from the start of
  the source buffer to the start of the destination buffer; reading or writing past the
  end of a buffer is the error \<open>IndexOutOfRange\<close>.
\<close>

definition sizeof_tensor_entry_t :: size_t where
  "sizeof_tensor_entry_t = 8"

definition memcpy :: "addr \<Rightarrow> addr \<Rightarrow> size_t \<Rightarrow> ('a, unit) prog" where
  "memcpy dst src n_bytes =
     bind_prog (load_buffer dst) (\<lambda>ds.
     bind_prog (load_buffer src) (\<lambda>ss.
       let n = unat n_bytes div unat sizeof_tensor_entry_t in
       if n \<le> length ds \<and> n \<le> length ss
       then store_buffer dst (take n ss @ drop n ds)
       else raise IndexOutOfRange))"

section \<open>The tensor layer (cytorch/tensor.c)\<close>

definition tensor_get_size :: "addr \<Rightarrow> ('a, tensor_size_t) prog" where
  "tensor_get_size tensor' =
     bind_prog (load_tensor tensor') (\<lambda>T. ret (num_rows T * num_columns T))"

text \<open>The product is a \<^verbatim>\<open>size_t\<close>: it wraps around at 64 bits.\<close>

definition tensor_get_size_in_bytes :: "addr \<Rightarrow> ('a, size_t) prog" where
  "tensor_get_size_in_bytes tensor' =
     bind_prog (tensor_get_size tensor') (\<lambda>n. ret (n * sizeof_tensor_entry_t))"

text \<open>
  \<^verbatim>\<open>_new_tensor\<close> returns the address of its compound literal. The result of
  \<^verbatim>\<open>calloc\<close> is not checked.
\<close>

definition new_tensor :: "tensor_size_t \<Rightarrow> tensor_size_t \<Rightarrow> ('a::zero, addr) prog" where
  "new_tensor rows columns =
     (let num_entries = rows * columns in
      bind_prog (calloc num_entries sizeof_tensor_entry_t) (\<lambda>raw_data.
      bind_prog (compound_literal \<lparr>data = raw_data, num_rows = rows, num_columns = columns\<rparr>)
        (\<lambda>literal.
      bind_prog (end_lifetime literal) (\<lambda>_.
      ret literal))))"

definition new_tensor_like :: "addr \<Rightarrow> ('a::zero, addr) prog" where
  "new_tensor_like old_tensor =
     bind_prog (load_tensor old_tensor) (\<lambda>T. new_tensor (num_rows T) (num_columns T))"

definition new_tensor_zeros_like :: "addr \<Rightarrow> ('a::zero, addr) prog" where
  "new_tensor_zeros_like old_tensor =
     bind_prog (load_tensor old_tensor) (\<lambda>T. new_tensor (num_rows T) (num_columns T))"

definition copy_tensor :: "addr \<Rightarrow> ('a::zero, addr) prog" where
  "copy_tensor old_tensor =
     bind_prog (new_tensor_like old_tensor) (\<lambda>new_tensor'.
     bind_prog (load_tensor new_tensor') (\<lambda>N.
     bind_prog (load_tensor old_tensor) (\<lambda>T.
     bind_prog (tensor_get_size_in_bytes old_tensor) (\<lambda>n_bytes.
     bind_prog (memcpy (data N) (data T) n_bytes) (\<lambda>_.
     ret new_tensor')))))"

text \<open>
  Modelled from the spec: \<^verbatim>\<open>tensor.h\<close> is not among the sources. \<^verbatim>\<open>_tensor_get_entry\<close>
  and \<^verbatim>\<open>_tensor_set_entry\<close> read and write the entry at a flat index of the tensor's
  buffer; an index outside the buffer fails with \<open>IndexOutOfRange\<close>.
\<close>

definition tensor_get_entry :: "addr \<Rightarrow> tensor_size_t \<Rightarrow> ('a, 'a) prog" where
  "tensor_get_entry tensor' index =
     bind_prog (load_tensor tensor') (\<lambda>T.
     bind_prog (load_buffer (data T)) (\<lambda>xs.
       if unat index < length xs then ret (xs ! unat index) else raise IndexOutOfRange))"

definition tensor_set_entry :: "addr \<Rightarrow> 'a \<Rightarrow> tensor_size_t \<Rightarrow> ('a, unit) prog" where
  "tensor_set_entry tensor' new_entry index =
     bind_prog (load_tensor tensor') (\<lambda>T.
     bind_prog (load_buffer (data T)) (\<lambda>xs.
       if unat index < length xs then store_buffer (data T) (xs[unat index := new_entry])
       else raise IndexOutOfRange))"

subsection \<open>Elementwise binary operations\<close>

definition tensor_exact_compatible :: "addr \<Rightarrow> addr \<Rightarrow> ('a, bool) prog" where
  "tensor_exact_compatible left_tensor right_tensor =
     bind_prog (load_tensor left_tensor) (\<lambda>L.
     bind_prog (load_tensor right_tensor) (\<lambda>R.
     ret (num_columns L = num_columns R \<and> num_rows L = num_rows R)))"

definition tensor_broadcast_compatible :: "addr \<Rightarrow> addr \<Rightarrow> ('a, bool) prog" where
  "tensor_broadcast_compatible left_tensor right_tensor =
     tensor_exact_compatible left_tensor right_tensor"

definition scalar_add :: "'a::plus \<Rightarrow> 'a \<Rightarrow> 'a" where
  "scalar_add left_scalar right_scalar = left_scalar + right_scalar"

definition scalar_multiply :: "'a::times \<Rightarrow> 'a \<Rightarrow> 'a" where
  "scalar_multiply left_scalar right_scalar = left_scalar * right_scalar"

definition scalar_subtract :: "'a::minus \<Rightarrow> 'a \<Rightarrow> 'a" where
  "scalar_subtract left_scalar right_scalar = left_scalar - right_scalar"

text \<open>
  Modelled from the spec: the macro \<^verbatim>\<open>DEBUG_ASSERT\<close> is not among the sources. A failed
  assertion ends the call there with the given error (the spec's \<open>ShapeMismatch\<close> for
  the compatibility check of an elementwise operation).
\<close>

definition debug_assert :: "bool \<Rightarrow> error \<Rightarrow> ('a, unit) prog" where
  "debug_assert condition e = (if condition then ret () else raise e)"

text \<open>
  The loop of \<^verbatim>\<open>_tensor_broadcast_scalar_fn\<close>, from \<open>index\<close> on. As in the source, the
  bound \<^verbatim>\<open>_tensor_get_size(left_tensor)\<close> is read again before every iteration.
\<close>

function broadcast_loop ::
  "addr \<Rightarrow> addr \<Rightarrow> addr \<Rightarrow> ('a \<Rightarrow> 'a \<Rightarrow> 'a) \<Rightarrow> tensor_size_t \<Rightarrow> ('a, unit) prog" where
  "broadcast_loop left_tensor right_tensor new_tensor' tensor_scalar_fn index h =
     (case tensor_get_size left_tensor h of
        (Inl e, h1) \<Rightarrow> (Inl e, h1)
      | (Inr n, h1) \<Rightarrow>
          if index < n then
            (case bind_prog (tensor_get_entry left_tensor index) (\<lambda>left_entry.
                  bind_prog (tensor_get_entry right_tensor index) (\<lambda>right_entry.
                  tensor_set_entry new_tensor' (tensor_scalar_fn left_entry right_entry) index)) h1 of
               (Inl e, h2) \<Rightarrow> (Inl e, h2)
             | (Inr _, h2) \<Rightarrow>
                 broadcast_loop left_tensor right_tensor new_tensor' tensor_scalar_fn (index + 1) h2)
          else (Inr (), h1))"
  by pat_completeness auto
termination
proof (relation "measure (\<lambda>(l, r, n, f, i, h).
    case tensors h l of None \<Rightarrow> 0 | Some T \<Rightarrow> unat (num_rows T * num_columns T) - unat i)")
  show "wf (measure (\<lambda>(l, r, n, f, i, h).
    case tensors h l of None \<Rightarrow> 0 | Some T \<Rightarrow> unat (num_rows T * num_columns T) - unat i))"
    by simp
next
  fix left_tensor right_tensor new_tensor' :: addr
    and tensor_scalar_fn :: "'a \<Rightarrow> 'a \<Rightarrow> 'a"
    and index n :: tensor_size_t
    and h h1 h2 :: "'a heap" and x :: "error + tensor_size_t" and y :: "error + unit" and u :: unit
  assume size: "(x, h1) = tensor_get_size left_tensor h" "x = Inr n"
    and less: "index < n"
    and body: "(y, h2) = bind_prog (tensor_get_entry left_tensor index) (\<lambda>left_entry.
                  bind_prog (tensor_get_entry right_tensor index) (\<lambda>right_entry.
                  tensor_set_entry new_tensor' (tensor_scalar_fn left_entry right_entry) index)) h1"
      "y = Inr u"
  from size obtain T where T: "tensors h left_tensor = Some T" "n = num_rows T * num_columns T"
    and h1: "h1 = h"
    by (auto simp: tensor_get_size_def bind_prog_def load_tensor_def ret_def
        split: option.splits if_splits)
  from body have "tensors h2 = tensors h1"
    by (auto simp: tensor_get_entry_def tensor_set_entry_def bind_prog_def load_tensor_def
        load_buffer_def store_buffer_def ret_def raise_def split: option.splits if_splits)
  moreover from less have "unat n - unat (index + 1) < unat n - unat index"
    by unat_arith
  ultimately show "((left_tensor, right_tensor, new_tensor', tensor_scalar_fn, index + 1, h2),
      (left_tensor, right_tensor, new_tensor', tensor_scalar_fn, index, h)) \<in> measure (\<lambda>(l, r, n, f, i, h).
    case tensors h l of None \<Rightarrow> 0 | Some T \<Rightarrow> unat (num_rows T * num_columns T) - unat i)"
    using T h1 by simp
qed

declare broadcast_loop.simps [simp del]

definition tensor_broadcast_scalar_fn :: "addr \<Rightarrow> addr \<Rightarrow> ('a \<Rightarrow> 'a \<Rightarrow> 'a) \<Rightarrow> ('a::zero, addr) prog" where
  "tensor_broadcast_scalar_fn left_tensor right_tensor tensor_scalar_fn =
     bind_prog (tensor_broadcast_compatible left_tensor right_tensor) (\<lambda>compatible.
     bind_prog (debug_assert compatible ShapeMismatch) (\<lambda>_.
     bind_prog (new_tensor_like left_tensor) (\<lambda>new_tensor'.
     bind_prog (broadcast_loop left_tensor right_tensor new_tensor' tensor_scalar_fn 0) (\<lambda>_.
     ret new_tensor'))))"

definition tensor_add :: "addr \<Rightarrow> addr \<Rightarrow> ('a::{zero,plus}, addr) prog" where
  "tensor_add left_tensor right_tensor =
     tensor_broadcast_scalar_fn left_tensor right_tensor scalar_add"

definition tensor_subtract :: "addr \<Rightarrow> addr \<Rightarrow> ('a::{zero,minus}, addr) prog" where
  "tensor_subtract left_tensor right_tensor =
     tensor_broadcast_scalar_fn left_tensor right_tensor scalar_subtract"

definition tensor_multiply :: "addr \<Rightarrow> addr \<Rightarrow> ('a::{zero,times}, addr) prog" where
  "tensor_multiply left_tensor right_tensor =
     tensor_broadcast_scalar_fn left_tensor right_tensor scalar_multiply"

subsection \<open>Tensor functions declared in tensor.h\<close>

text \<open>
  Modelled from the spec: the functions of this subsection are called by the variable
  layer and declared in \<^verbatim>\<open>tensor.h\<close>, which is not among the sources. Each follows
  the spec's section 4.2:
  \<^item> \<open>setAllToScalar(value)\<close>: overwrite every entry in place;
  \<^item> \<open>multiplyByScalarInPlace(t, k)\<close>: mutates \<open>t\<close>, every entry scaled by \<open>k\<close>;
  \<^item> the in-place elementwise product \<open>t \<odot> other\<close> of the backward function of
    multiply, with the compatibility check of every elementwise operation;
  \<^item> \<open>sumGrad(t)\<close>: a new tensor of the shape of \<open>t\<close>, every entry 1;
  \<^item> \<open>sum(t)\<close>: a new 1x1 tensor whose entry is the sum of all entries of \<open>t\<close>;
  \<^item> \<open>absMap(t)\<close>, \<open>absGrad(t)\<close>: new tensors, the entrywise absolute value and sign.

  How these functions allocate the tensor they return is not in the sources either. By
  the spec's data model a Tensor that an operation returns is an independently owned
  object with fresh storage: \<open>owned_tensor\<close> is a new buffer with the given entries and a
  new \<^verbatim>\<open>tensor_t\<close> object that stays alive.
\<close>

definition owned_tensor :: "tensor_size_t \<Rightarrow> tensor_size_t \<Rightarrow> 'a list \<Rightarrow> ('a, addr) prog" where
  "owned_tensor rows columns xs =
     bind_prog (new_buffer xs) (\<lambda>raw_data. \<lambda>h.
       (Inr (Suc (brk h)),
        h\<lparr>tensors := (tensors h)(Suc (brk h) \<mapsto>
            \<lparr>data = raw_data, num_rows = rows, num_columns = columns\<rparr>),
          brk := Suc (brk h)\<rparr>))"

definition tensor_set_to_scalar_value :: "addr \<Rightarrow> 'a \<Rightarrow> ('a, unit) prog" where
  "tensor_set_to_scalar_value tensor' v =
     bind_prog (load_tensor tensor') (\<lambda>T.
     bind_prog (load_buffer (data T)) (\<lambda>xs.
     store_buffer (data T) (map (\<lambda>_. v) xs)))"

definition tensor_multiply_by_scalar_value :: "addr \<Rightarrow> 'a::times \<Rightarrow> ('a, unit) prog" where
  "tensor_multiply_by_scalar_value tensor' k =
     bind_prog (load_tensor tensor') (\<lambda>T.
     bind_prog (load_buffer (data T)) (\<lambda>xs.
     store_buffer (data T) (map (\<lambda>x. x * k) xs)))"

definition tensor_multiply_existing :: "addr \<Rightarrow> addr \<Rightarrow> ('a::times, unit) prog" where
  "tensor_multiply_existing tensor' other_tensor =
     bind_prog (tensor_broadcast_compatible tensor' other_tensor) (\<lambda>compatible.
     bind_prog (debug_assert compatible ShapeMismatch) (\<lambda>_.
     bind_prog (load_tensor tensor') (\<lambda>T.
     bind_prog (load_tensor other_tensor) (\<lambda>O'.
     bind_prog (load_buffer (data T)) (\<lambda>xs.
     bind_prog (load_buffer (data O')) (\<lambda>ys.
     store_buffer (data T) (map2 (\<lambda>x y. x * y) xs ys)))))))"

definition tensor_sum_grad :: "addr \<Rightarrow> ('a::one, addr) prog" where
  "tensor_sum_grad tensor' =
     bind_prog (load_tensor tensor') (\<lambda>T.
     owned_tensor (num_rows T) (num_columns T)
       (replicate (unat (num_rows T * num_columns T)) 1))"

definition tensor_sum :: "addr \<Rightarrow> ('a::{zero,plus}, addr) prog" where
  "tensor_sum tensor' =
     bind_prog (load_tensor tensor') (\<lambda>T.
     bind_prog (load_buffer (data T)) (\<lambda>xs.
     owned_tensor 1 1 [foldl (\<lambda>s x. s + x) 0 xs]))"

definition tensor_abs :: "addr \<Rightarrow> ('a::abs, addr) prog" where
  "tensor_abs tensor' =
     bind_prog (load_tensor tensor') (\<lambda>T.
     bind_prog (load_buffer (data T)) (\<lambda>xs.
     owned_tensor (num_rows T) (num_columns T) (map (\<lambda>x. \<bar>x\<bar>) xs)))"


section \<open>The variable layer: constructors and atomic operations\<close>

text \<open>
  Modelled from the spec: \<^verbatim>\<open>grad.h\<close> is not among the sources. The default GradMeta
  is the leaf's (no operand); the two setters record the operands and the backward
  functions they are given, in the order of their arguments (the function after the
  operands is the left operand's, the last one the right operand's), and write nothing
  else.
\<close>

definition default_grad_meta :: grad_meta_t where
  "default_grad_meta = Leaf_meta"

definition binary_set_grad_meta ::
  "addr \<Rightarrow> addr \<Rightarrow> addr \<Rightarrow> binary_backwards_fn \<Rightarrow> binary_backwards_fn \<Rightarrow> ('a, unit) prog" where
  "binary_set_grad_meta variable left_variable right_variable left_fn right_fn =
     bind_prog (load_variable variable) (\<lambda>V.
     store_variable variable (V\<lparr>grad_meta := Binary_meta left_variable right_variable left_fn right_fn\<rparr>))"

definition unary_set_grad_meta :: "addr \<Rightarrow> addr \<Rightarrow> unary_backwards_fn \<Rightarrow> ('a, unit) prog" where
  "unary_set_grad_meta variable arg_variable fn =
     bind_prog (load_variable variable) (\<lambda>V.
     store_variable variable (V\<lparr>grad_meta := Unary_meta arg_variable fn\<rparr>))"

subsection \<open>Constructors\<close>

definition new_variable_from_tensor :: "addr \<Rightarrow> ('a::zero, addr) prog" where
  "new_variable_from_tensor tensor' =
     bind_prog malloc_variable (\<lambda>new_variable'.
     bind_prog (new_tensor_zeros_like tensor') (\<lambda>gradient'.
     bind_prog (store_variable new_variable'
        \<lparr>tensor = tensor', gradient = gradient', grad_meta = default_grad_meta\<rparr>) (\<lambda>_.
     ret new_variable')))"

definition new_variable_like :: "addr \<Rightarrow> ('a::zero, addr) prog" where
  "new_variable_like old_variable =
     bind_prog (load_variable old_variable) (\<lambda>V.
     bind_prog (new_tensor_like (tensor V)) (\<lambda>new_tensor'.
     new_variable_from_tensor new_tensor'))"

definition copy_variable :: "addr \<Rightarrow> ('a::zero, addr) prog" where
  "copy_variable old_variable =
     bind_prog (load_variable old_variable) (\<lambda>V.
     bind_prog (copy_tensor (tensor V)) (\<lambda>new_tensor'.
     new_variable_from_tensor new_tensor'))"

definition set_to_scalar :: "addr \<Rightarrow> 'a \<Rightarrow> ('a, unit) prog" where
  "set_to_scalar variable v =
     bind_prog (load_variable variable) (\<lambda>V.
     tensor_set_to_scalar_value (tensor V) v)"

subsection \<open>Backward functions\<close>

definition add_grad_backwards :: "addr \<Rightarrow> addr \<Rightarrow> addr \<Rightarrow> ('a::zero, addr) prog" where
  "add_grad_backwards arg other_arg child =
     bind_prog (load_variable child) (\<lambda>C.
     copy_tensor (gradient C))"

definition subtract_grad_backwards ::
  "addr \<Rightarrow> addr \<Rightarrow> addr \<Rightarrow> ('a::{zero,one,uminus,times}, addr) prog" where
  "subtract_grad_backwards arg other_arg child =
     bind_prog (load_variable child) (\<lambda>C.
     bind_prog (copy_tensor (gradient C)) (\<lambda>child_grad.
     bind_prog (tensor_multiply_by_scalar_value child_grad (- 1)) (\<lambda>_.
     ret child_grad)))"

definition multiply_grad_backwards :: "addr \<Rightarrow> addr \<Rightarrow> addr \<Rightarrow> ('a::{zero,times}, addr) prog" where
  "multiply_grad_backwards arg other_arg child =
     bind_prog (load_variable child) (\<lambda>C.
     bind_prog (copy_tensor (gradient C)) (\<lambda>arg_grad.
     bind_prog (load_variable other_arg) (\<lambda>O'.
     bind_prog (tensor_multiply_existing arg_grad (tensor O')) (\<lambda>_.
     ret arg_grad))))"


definition sum_grad_backwards :: "addr \<Rightarrow> addr \<Rightarrow> ('a::{zero,one,times}, addr) prog" where
  "sum_grad_backwards arg result =
     bind_prog (load_variable arg) (\<lambda>A.
     bind_prog (tensor_sum_grad (tensor A)) (\<lambda>sum_grad.
     bind_prog (load_variable result) (\<lambda>R.
     tensor_multiply sum_grad (tensor R))))"

text \<open>Calling a backward function through the pointer a GradMeta holds.\<close>

fun call_binary_backwards ::
  "binary_backwards_fn \<Rightarrow> addr \<Rightarrow> addr \<Rightarrow> addr \<Rightarrow> ('a::{zero,one,uminus,times}, addr) prog" where
  "call_binary_backwards Add_grad_backwards = add_grad_backwards"
| "call_binary_backwards Subtract_grad_backwards = subtract_grad_backwards"
| "call_binary_backwards Multiply_grad_backwards = multiply_grad_backwards"


subsection \<open>Atomic operations\<close>

definition add_impl :: "addr \<Rightarrow> addr \<Rightarrow> bool \<Rightarrow> ('a::{zero,plus}, addr) prog" where
  "add_impl left_variable right_variable use_grad =
     bind_prog (load_variable left_variable) (\<lambda>L.
     bind_prog (load_variable right_variable) (\<lambda>R.
     bind_prog (tensor_add (tensor L) (tensor R)) (\<lambda>new_tensor'.
     bind_prog (new_variable_from_tensor new_tensor') (\<lambda>new_variable'.
     bind_prog (if use_grad
                then binary_set_grad_meta new_variable' left_variable right_variable
                       Add_grad_backwards Add_grad_backwards
                else ret ()) (\<lambda>_.
     ret new_variable')))))"

definition subtract_impl :: "addr \<Rightarrow> addr \<Rightarrow> bool \<Rightarrow> ('a::{zero,minus}, addr) prog" where
  "subtract_impl left_variable right_variable use_grad =
     bind_prog (load_variable left_variable) (\<lambda>L.
     bind_prog (load_variable right_variable) (\<lambda>R.
     bind_prog (tensor_subtract (tensor L) (tensor R)) (\<lambda>new_tensor'.
     bind_prog (new_variable_from_tensor new_tensor') (\<lambda>new_variable'.
     bind_prog (if use_grad
                then binary_set_grad_meta new_variable' left_variable right_variable
                       Subtract_grad_backwards Subtract_grad_backwards
                else ret ()) (\<lambda>_.
     ret new_variable')))))"

definition multiply_impl :: "addr \<Rightarrow> addr \<Rightarrow> bool \<Rightarrow> ('a::{zero,times}, addr) prog" where
  "multiply_impl left_variable right_variable use_grad =
     bind_prog (load_variable left_variable) (\<lambda>L.
     bind_prog (load_variable right_variable) (\<lambda>R.
     bind_prog (tensor_multiply (tensor L) (tensor R)) (\<lambda>new_tensor'.
     bind_prog (new_variable_from_tensor new_tensor') (\<lambda>new_variable'.
     bind_prog (if use_grad
                then binary_set_grad_meta new_variable' left_variable right_variable
                       Multiply_grad_backwards Multiply_grad_backwards
                else ret ()) (\<lambda>_.
     ret new_variable')))))"

definition abs_impl :: "addr \<Rightarrow> bool \<Rightarrow> ('a::{zero,abs}, addr) prog" where
  "abs_impl variable use_grad =
     bind_prog (load_variable variable) (\<lambda>V.
     bind_prog (tensor_abs (tensor V)) (\<lambda>new_tensor'.
     bind_prog (new_variable_from_tensor new_tensor') (\<lambda>new_variable'.
     bind_prog (if use_grad
                then unary_set_grad_meta new_variable' variable Abs_grad_backwards
                else ret ()) (\<lambda>_.
     ret new_variable'))))"

definition sum_impl :: "addr \<Rightarrow> bool \<Rightarrow> ('a::{zero,plus}, addr) prog" where
  "sum_impl variable use_grad =
     bind_prog (load_variable variable) (\<lambda>V.
     bind_prog (tensor_sum (tensor V)) (\<lambda>new_tensor'.
     bind_prog (new_variable_from_tensor new_tensor') (\<lambda>new_variable'.
     bind_prog (if use_grad
                then unary_set_grad_meta new_variable' variable Sum_grad_backwards
                else ret ()) (\<lambda>_.
     ret new_variable'))))"

subsection \<open>External functions\<close>

definition add :: "addr \<Rightarrow> addr \<Rightarrow> ('a::{zero,plus}, addr) prog" where
  "add left_variable right_variable = add_impl left_variable right_variable True"


definition multiply :: "addr \<Rightarrow> addr \<Rightarrow> ('a::{zero,times}, addr) prog" where
  "multiply left_variable right_variable = multiply_impl left_variable right_variable True"

definition abs_variable :: "addr \<Rightarrow> ('a::{zero,abs}, addr) prog" where
  "abs_variable variable = abs_impl variable True"

definition sum_variable :: "addr \<Rightarrow> ('a::{zero,plus}, addr) prog" where
  "sum_variable variable = sum_impl variable True"

section \<open>What a heap holds\<close>

definition tensor_shape :: "'a heap \<Rightarrow> addr \<Rightarrow> (tensor_size_t \<times> tensor_size_t) option" where
  "tensor_shape h t = (case tensors h t of None \<Rightarrow> None | Some T \<Rightarrow> Some (num_rows T, num_columns T))"

definition tensor_entries :: "'a heap \<Rightarrow> addr \<Rightarrow> 'a list option" where
  "tensor_entries h t = (case tensors h t of None \<Rightarrow> None | Some T \<Rightarrow> buffers h (data T))"

text \<open>
  A well-formed tensor: the struct and its buffer are live objects at addresses that
  have been given out, and the buffer has \<^verbatim>\<open>num_rows * num_columns\<close> entries.
\<close>

definition tensor_ok :: "'a heap \<Rightarrow> addr \<Rightarrow> bool" where
  "tensor_ok h t =
     (case tensors h t of
        None \<Rightarrow> False
      | Some T \<Rightarrow>
          t \<noteq> NULL \<and> t \<le> brk h \<and> data T \<noteq> NULL \<and> data T \<le> brk h \<and>
          (case buffers h (data T) of
             None \<Rightarrow> False
           | Some xs \<Rightarrow> length xs = unat (num_rows T * num_columns T)))"

text \<open>
  A variable with a well-formed value: the struct is live and its value tensor is a
  well-formed tensor. Nothing is asked of the gradient.
\<close>

definition value_ok :: "'a heap \<Rightarrow> addr \<Rightarrow> bool" where
  "value_ok h v =
     (case variables h v of
        None \<Rightarrow> False
      | Some V \<Rightarrow> v \<noteq> NULL \<and> v \<le> brk h \<and> tensor_ok h (tensor V))"

text \<open>
  A well-formed variable: the struct is live, its value tensor and its gradient
  tensor are well-formed tensors of one shape, and each has a buffer of its own.
\<close>

definition variable_ok :: "'a heap \<Rightarrow> addr \<Rightarrow> bool" where
  "variable_ok h v =
     (case variables h v of
        None \<Rightarrow> False
      | Some V \<Rightarrow>
          v \<noteq> NULL \<and> v \<le> brk h \<and> tensor_ok h (tensor V) \<and> tensor_ok h (gradient V) \<and>
          tensor_shape h (gradient V) = tensor_shape h (tensor V) \<and>
          (case tensors h (tensor V) of
             None \<Rightarrow> False
           | Some T \<Rightarrow>
               (case tensors h (gradient V) of None \<Rightarrow> False | Some G \<Rightarrow> data T \<noteq> data G)))"

text \<open>
  The state of a variable's gradient that the spec asks for at its creation: a tensor
  of the shape of the value tensor, every entry zero.
\<close>

definition gradient_zero :: "'a::zero heap \<Rightarrow> addr \<Rightarrow> bool" where
  "gradient_zero h v =
     (case variables h v of
        None \<Rightarrow> False
      | Some V \<Rightarrow>
          (case tensor_shape h (tensor V) of
             None \<Rightarrow> False
           | Some (r, c) \<Rightarrow>
               tensor_shape h (gradient V) = Some (r, c) \<and>
               tensor_entries h (gradient V) = Some (replicate (unat (r * c)) 0)))"

definition variable_shape :: "'a heap \<Rightarrow> addr \<Rightarrow> (tensor_size_t \<times> tensor_size_t) option" where
  "variable_shape h v = (case variables h v of None \<Rightarrow> None | Some V \<Rightarrow> tensor_shape h (tensor V))"

text \<open>
  The gradient of a variable does not share the buffer of the value tensor: the
  gradient pointer holds no tensor, or a tensor with another buffer.
\<close>

definition gradient_apart :: "'a heap \<Rightarrow> addr \<Rightarrow> bool" where
  "gradient_apart h v =
     (case variables h v of
        None \<Rightarrow> False
      | Some V \<Rightarrow>
          (case tensors h (tensor V) of
             None \<Rightarrow> False
           | Some T \<Rightarrow>
               (case tensors h (gradient V) of None \<Rightarrow> True | Some G \<Rightarrow> data T \<noteq> data G)))"

text \<open>
  A later heap: every address given out so far holds what it held (objects are added
  above the mark only).
\<close>

definition extends :: "'a heap \<Rightarrow> 'a heap \<Rightarrow> bool" where
  "extends h h' \<longleftrightarrow>
     brk h \<le> brk h' \<and>
     (\<forall>q. q \<le> brk h \<longrightarrow>
        buffers h' q = buffers h q \<and> tensors h' q = tensors h q \<and> variables h' q = variables h q)"

subsection \<open>An example heap\<close>

text \<open>
  A heap whose objects are all live, as a caller that holds its \<^verbatim>\<open>tensor_t\<close> structs
  in storage of its own has it: two 2x2 variables \<open>a\<close> (at 3, every entry 3) and \<open>b\<close>
  (at 8, every entry 4) with zero gradients; a 2x3 and a 3x2 tensor (at 12 and 14); a
  1x1 variable \<open>x\<close> (at 17) with value 48; a 1x1 variable (at 22) with the value 48,
  the gradient 1 and the GradMeta of \<open>sum_variable x\<close>; and a 2x2 variable \<open>c\<close> (at 27)
  with every entry 12, the gradient all ones and the GradMeta of \<open>multiply a b\<close>.
\<close>

definition example_heap :: "int heap" where
  "example_heap =
     \<lparr>buffers = [1 \<mapsto> [3, 3, 3, 3], 4 \<mapsto> [0, 0, 0, 0], 6 \<mapsto> [4, 4, 4, 4], 9 \<mapsto> [0, 0, 0, 0],
                 11 \<mapsto> [1, 2, 3, 4, 5, 6], 13 \<mapsto> [6, 5, 4, 3, 2, 1],
                 15 \<mapsto> [48], 18 \<mapsto> [0], 20 \<mapsto> [48], 23 \<mapsto> [1],
                 25 \<mapsto> [12, 12, 12, 12], 28 \<mapsto> [1, 1, 1, 1]],
      tensors = [2 \<mapsto> \<lparr>data = 1, num_rows = 2, num_columns = 2\<rparr>,
                 5 \<mapsto> \<lparr>data = 4, num_rows = 2, num_columns = 2\<rparr>,
                 7 \<mapsto> \<lparr>data = 6, num_rows = 2, num_columns = 2\<rparr>,
                 10 \<mapsto> \<lparr>data = 9, num_rows = 2, num_columns = 2\<rparr>,
                 12 \<mapsto> \<lparr>data = 11, num_rows = 2, num_columns = 3\<rparr>,
                 14 \<mapsto> \<lparr>data = 13, num_rows = 3, num_columns = 2\<rparr>,
                 16 \<mapsto> \<lparr>data = 15, num_rows = 1, num_columns = 1\<rparr>,
                 19 \<mapsto> \<lparr>data = 18, num_rows = 1, num_columns = 1\<rparr>,
                 21 \<mapsto> \<lparr>data = 20, num_rows = 1, num_columns = 1\<rparr>,
                 24 \<mapsto> \<lparr>data = 23, num_rows = 1, num_columns = 1\<rparr>,
                 26 \<mapsto> \<lparr>data = 25, num_rows = 2, num_columns = 2\<rparr>,
                 29 \<mapsto> \<lparr>data = 28, num_rows = 2, num_columns = 2\<rparr>],
      variables = [3 \<mapsto> \<lparr>tensor = 2, gradient = 5, grad_meta = Leaf_meta\<rparr>,
                   8 \<mapsto> \<lparr>tensor = 7, gradient = 10, grad_meta = Leaf_meta\<rparr>,
                   17 \<mapsto> \<lparr>tensor = 16, gradient = 19, grad_meta = Leaf_meta\<rparr>,
                   22 \<mapsto> \<lparr>tensor = 21, gradient = 24,
                          grad_meta = Unary_meta 17 Sum_grad_backwards\<rparr>,
                   27 \<mapsto> \<lparr>tensor = 26, gradient = 29,
                          grad_meta = Binary_meta 3 8 Multiply_grad_backwards
                            Multiply_grad_backwards\<rparr>],
      brk = 29\<rparr>"

section \<open>Running a program\<close>

lemma bind_prog_Inr: "f h = (Inr x, h') \<Longrightarrow> bind_prog f g h = g x h'"
  by (simp add: bind_prog_def)

lemma bind_prog_Inl: "f h = (Inl e, h') \<Longrightarrow> bind_prog f g h = (Inl e, h')"
  by (simp add: bind_prog_def)

lemma bind_prog_assoc:
  "bind_prog (bind_prog m f) g = bind_prog m (\<lambda>x. bind_prog (f x) g)"
  by (rule ext) (simp add: bind_prog_def split: prod.splits sum.splits)

lemma bind_prog_ret: "bind_prog (ret x) f = f x"
  by (rule ext) (simp add: bind_prog_def ret_def)

lemma load_tensor_live: "tensors h p = Some T \<Longrightarrow> p \<noteq> NULL \<Longrightarrow> load_tensor p h = (Inr T, h)"
  by (simp add: load_tensor_def)

lemma load_tensor_dead: "tensors h p = None \<Longrightarrow> load_tensor p h = (Inl InvalidPointer, h)"
  by (simp add: load_tensor_def)

lemma load_variable_live:
  "variables h p = Some V \<Longrightarrow> p \<noteq> NULL \<Longrightarrow> load_variable p h = (Inr V, h)"
  by (simp add: load_variable_def)

lemma load_buffer_live: "buffers h p = Some xs \<Longrightarrow> p \<noteq> NULL \<Longrightarrow> load_buffer p h = (Inr xs, h)"
  by (simp add: load_buffer_def)

section \<open>Well-formed objects and later heaps\<close>

lemma tensor_okE:
  assumes "tensor_ok h t"
  obtains T xs where "tensors h t = Some T" "buffers h (data T) = Some xs"
    "length xs = unat (num_rows T * num_columns T)" "t \<noteq> NULL" "t \<le> brk h"
    "data T \<noteq> NULL" "data T \<le> brk h"
  using assms by (auto simp: tensor_ok_def split: option.splits)

lemma value_okE:
  assumes "value_ok h v"
  obtains V where "variables h v = Some V" "v \<noteq> NULL" "v \<le> brk h" "tensor_ok h (tensor V)"
  using assms by (auto simp: value_ok_def split: option.splits)

lemma variable_okE:
  assumes "variable_ok h v"
  obtains V T G xs gs where "variables h v = Some V" "v \<noteq> NULL" "v \<le> brk h"
    "tensors h (tensor V) = Some T" "buffers h (data T) = Some xs"
    "length xs = unat (num_rows T * num_columns T)" "tensor V \<noteq> NULL" "tensor V \<le> brk h"
    "data T \<noteq> NULL" "data T \<le> brk h"
    "tensors h (gradient V) = Some G" "buffers h (data G) = Some gs"
    "length gs = unat (num_rows G * num_columns G)" "gradient V \<noteq> NULL" "gradient V \<le> brk h"
    "data G \<noteq> NULL" "data G \<le> brk h"
    "num_rows G = num_rows T" "num_columns G = num_columns T" "data T \<noteq> data G"
  using assms
  by (auto simp: variable_ok_def tensor_ok_def tensor_shape_def split: option.splits)

lemma variable_ok_value_ok: "variable_ok h v \<Longrightarrow> value_ok h v"
  by (auto simp: variable_ok_def value_ok_def split: option.splits)

lemma variable_ok_gradient_apart: "variable_ok h v \<Longrightarrow> gradient_apart h v"
  by (auto simp: variable_ok_def gradient_apart_def split: option.splits)

lemma tensor_ok_variables_update: "tensor_ok (h\<lparr>variables := m\<rparr>) t = tensor_ok h t"
  by (simp add: tensor_ok_def split: option.splits)

lemma extends_refl: "extends h h"
  by (simp add: extends_def)

lemma extends_trans: "extends h h1 \<Longrightarrow> extends h1 h2 \<Longrightarrow> extends h h2"
  by (auto simp: extends_def)

lemma extends_tensor_ok:
  assumes "extends h h'" "tensor_ok h t"
  shows "tensor_ok h' t" "tensors h' t = tensors h t" "tensor_shape h' t = tensor_shape h t"
    "tensor_entries h' t = tensor_entries h t"
proof -
  from assms(2) obtain T xs where T: "tensors h t = Some T" "buffers h (data T) = Some xs"
    "length xs = unat (num_rows T * num_columns T)" "t \<noteq> NULL" "t \<le> brk h"
    "data T \<noteq> NULL" "data T \<le> brk h"
    by (rule tensor_okE)
  with assms(1) have T': "tensors h' t = Some T" "buffers h' (data T) = Some xs" "brk h \<le> brk h'"
    by (simp_all add: extends_def)
  with T show "tensor_ok h' t" "tensors h' t = tensors h t" "tensor_shape h' t = tensor_shape h t"
    "tensor_entries h' t = tensor_entries h t"
    by (simp_all add: tensor_ok_def tensor_shape_def tensor_entries_def)
qed

lemma extends_value_ok:
  assumes "extends h h'" "value_ok h v"
  shows "value_ok h' v" "variables h' v = variables h v" "variable_shape h' v = variable_shape h v"
proof -
  from assms(2) obtain V where V: "variables h v = Some V" "v \<noteq> NULL" "v \<le> brk h"
    "tensor_ok h (tensor V)"
    by (rule value_okE)
  with assms(1) have V': "variables h' v = Some V" "brk h \<le> brk h'"
    by (simp_all add: extends_def)
  with V extends_tensor_ok [OF assms(1) V(4)]
  show "value_ok h' v" "variables h' v = variables h v" "variable_shape h' v = variable_shape h v"
    by (simp_all add: value_ok_def variable_shape_def)
qed

section \<open>The tensor layer\<close>

subsection \<open>Construction\<close>

text \<open>
  \<open>new_tensor\<close> always returns, and what it returns is a dangling pointer: a new
  address that holds no tensor. The heap is a later heap.
\<close>

lemma new_tensor_dangling:
  "\<exists>p h'. new_tensor r c h = (Inr p, h') \<and> tensors h' p = None \<and> brk h < p \<and> p \<le> brk h' \<and>
     extends h h' \<and> variables h' = variables h"
  by (simp add: new_tensor_def calloc_def new_buffer_def compound_literal_def end_lifetime_def
      bind_prog_def ret_def extends_def Let_def)

lemma new_tensor_like_dangling:
  assumes "tensors h t = Some T" "t \<noteq> NULL"
  shows "\<exists>p h'. new_tensor_like t h = (Inr p, h') \<and> tensors h' p = None \<and> brk h < p \<and>
     p \<le> brk h' \<and> extends h h' \<and> variables h' = variables h"
  using new_tensor_dangling [of "num_rows T" "num_columns T" h]
  by (simp add: new_tensor_like_def bind_prog_Inr [where f = "load_tensor t", OF load_tensor_live [OF assms]])

lemma new_tensor_zeros_like_dangling:
  assumes "tensors h t = Some T" "t \<noteq> NULL"
  shows "\<exists>p h'. new_tensor_zeros_like t h = (Inr p, h') \<and> tensors h' p = None \<and> brk h < p \<and>
     p \<le> brk h' \<and> extends h h' \<and> variables h' = variables h"
  using new_tensor_dangling [of "num_rows T" "num_columns T" h]
  by (simp add: new_tensor_zeros_like_def
      bind_prog_Inr [where f = "load_tensor t", OF load_tensor_live [OF assms]])

lemma owned_tensor_run:
  "owned_tensor r c xs h =
     (Inr (Suc (Suc (brk h))),
      h\<lparr>buffers := (buffers h)(Suc (brk h) \<mapsto> xs),
        tensors := (tensors h)(Suc (Suc (brk h)) \<mapsto> \<lparr>data = Suc (brk h), num_rows = r, num_columns = c\<rparr>),
        brk := Suc (Suc (brk h))\<rparr>)"
  by (simp add: owned_tensor_def new_buffer_def bind_prog_def)

lemma copy_tensor_fails:
  assumes "tensors h t = Some T" "t \<noteq> NULL"
  shows "\<exists>h'. copy_tensor t h = (Inl InvalidPointer, h') \<and> extends h h'"
proof -
  from new_tensor_like_dangling [OF assms] obtain p h1
    where p: "new_tensor_like t h = (Inr p, h1)" "tensors h1 p = None" "extends h h1"
    by blast
  have "copy_tensor t h = (Inl InvalidPointer, h1)"
    unfolding copy_tensor_def
    by (simp only: bind_prog_Inr [where f = "new_tensor_like t", OF p(1)]
        bind_prog_Inl [where f = "load_tensor p", OF load_tensor_dead [OF p(2)]])
  with p(3) show ?thesis
    by blast
qed

subsection \<open>Elementwise binary operations\<close>

lemma tensor_get_entry_live:
  assumes "tensors h t = Some T" "t \<noteq> NULL" "buffers h (data T) = Some xs" "data T \<noteq> NULL"
    "unat i < length xs"
  shows "tensor_get_entry t i h = (Inr (xs ! unat i), h)"
  using assms
  by (simp add: tensor_get_entry_def bind_prog_def load_tensor_def load_buffer_def ret_def)

lemma tensor_set_entry_dead:
  assumes "tensors h p = None"
  shows "tensor_set_entry p v i h = (Inl InvalidPointer, h)"
  using assms by (simp add: tensor_set_entry_def bind_prog_def load_tensor_def)

text \<open>
  The loop writes through the pointer that \<open>new_tensor_like\<close> has returned: its first
  iteration fails, and only an empty tensor gets past it.
\<close>

lemma broadcast_loop_dangling:
  assumes "tensors h l = Some L" "l \<noteq> NULL" "buffers h (data L) = Some ls" "data L \<noteq> NULL"
    and "tensors h r = Some R" "r \<noteq> NULL" "buffers h (data R) = Some rs" "data R \<noteq> NULL"
    and "length ls = unat (num_rows L * num_columns L)" "length rs = length ls"
    and "tensors h p = None"
  shows "broadcast_loop l r p f 0 h =
     (if num_rows L * num_columns L = 0 then (Inr (), h) else (Inl InvalidPointer, h))"
proof (cases "num_rows L * num_columns L = 0")
  case True
  with assms(1,2) show ?thesis
    by (subst broadcast_loop.simps)
      (simp add: tensor_get_size_def bind_prog_def load_tensor_def ret_def)
next
  case False
  then have pos: "0 < num_rows L * num_columns L"
    by (simp add: word_greater_zero_iff)
  then have in_range: "unat (0 :: tensor_size_t) < length ls" "unat (0 :: tensor_size_t) < length rs"
    using assms(9,10) by (simp_all add: word_less_nat_alt)
  have size: "tensor_get_size l h = (Inr (num_rows L * num_columns L), h)"
    using assms(1,2) by (simp add: tensor_get_size_def bind_prog_def load_tensor_def ret_def)
  note left = tensor_get_entry_live [OF assms(1-4) in_range(1)]
  note right = tensor_get_entry_live [OF assms(5-8) in_range(2)]
  have body: "bind_prog (tensor_get_entry l 0) (\<lambda>left_entry.
      bind_prog (tensor_get_entry r 0) (\<lambda>right_entry.
      tensor_set_entry p (f left_entry right_entry) 0)) h = (Inl InvalidPointer, h)"
    by (simp only: bind_prog_Inr [where f = "tensor_get_entry l 0", OF left]
        bind_prog_Inr [where f = "tensor_get_entry r 0", OF right]
        tensor_set_entry_dead [OF assms(11)])
  from False pos show ?thesis
    by (subst broadcast_loop.simps) (simp add: size body)
qed

lemma tensor_broadcast_scalar_fn_equal:
  assumes a: "tensors h a = Some A" "buffers h (data A) = Some xs"
      "length xs = unat (num_rows A * num_columns A)" "a \<noteq> NULL" "a \<le> brk h"
      "data A \<noteq> NULL" "data A \<le> brk h"
    and b: "tensors h b = Some B" "buffers h (data B) = Some ys"
      "length ys = unat (num_rows B * num_columns B)" "b \<noteq> NULL" "b \<le> brk h"
      "data B \<noteq> NULL" "data B \<le> brk h"
    and same: "num_rows A = num_rows B" "num_columns A = num_columns B"
  shows "\<exists>p h'. tensor_broadcast_scalar_fn a b f h =
       (if num_rows A * num_columns A = 0 then (Inr p, h') else (Inl InvalidPointer, h')) \<and>
     tensors h' p = None \<and> extends h h'"
proof -
  have compat: "tensor_broadcast_compatible a b h = (Inr True, h)"
    using a(1,4) b(1,4) same
    by (simp add: tensor_broadcast_compatible_def tensor_exact_compatible_def bind_prog_def
        load_tensor_def ret_def)
  have assert: "debug_assert True ShapeMismatch h = (Inr (), h)"
    by (simp add: debug_assert_def ret_def)
  from new_tensor_like_dangling [OF a(1,4)] obtain p h1
    where p: "new_tensor_like a h = (Inr p, h1)" "tensors h1 p = None" "extends h h1"
    by blast
  from p(3) a b have live: "tensors h1 a = Some A" "buffers h1 (data A) = Some xs"
    "tensors h1 b = Some B" "buffers h1 (data B) = Some ys"
    by (simp_all add: extends_def)
  have len: "length ys = length xs"
    using a(3) b(3) same by simp
  note loop = broadcast_loop_dangling
    [OF live(1) a(4) live(2) a(6) live(3) b(4) live(4) b(6) a(3) len p(2), of f]
  have "tensor_broadcast_scalar_fn a b f h =
       (if num_rows A * num_columns A = 0 then (Inr p, h1) else (Inl InvalidPointer, h1))"
    unfolding tensor_broadcast_scalar_fn_def
    by (simp only: bind_prog_Inr [where f = "tensor_broadcast_compatible a b", OF compat]
        bind_prog_Inr [where f = "debug_assert True ShapeMismatch", OF assert]
        bind_prog_Inr [where f = "new_tensor_like a", OF p(1)])
      (simp add: bind_prog_def loop ret_def)
  with p(2,3) show ?thesis
    by blast
qed

lemma tensor_broadcast_scalar_fn_mismatch:
  assumes "tensors h l = Some L" "l \<noteq> NULL" "tensors h r = Some R" "r \<noteq> NULL"
    and "num_columns L \<noteq> num_columns R \<or> num_rows L \<noteq> num_rows R"
  shows "tensor_broadcast_scalar_fn l r f h = (Inl ShapeMismatch, h)"
proof -
  have "tensor_broadcast_compatible l r h = (Inr False, h)"
    using assms
    by (auto simp: tensor_broadcast_compatible_def tensor_exact_compatible_def bind_prog_def
        load_tensor_def ret_def)
  then show ?thesis
    by (simp add: tensor_broadcast_scalar_fn_def bind_prog_def debug_assert_def raise_def)
qed

lemma tensor_broadcast_scalar_fn_dangling:
  assumes "tensor_ok h a" "tensor_ok h b" "tensor_shape h a = Some (r, c)"
    "tensor_shape h b = Some (r, c)" "r * c \<noteq> 0"
  shows "\<exists>h'. tensor_broadcast_scalar_fn a b f h = (Inl InvalidPointer, h')"
proof -
  from assms(1) obtain A xs where a: "tensors h a = Some A" "buffers h (data A) = Some xs"
    "length xs = unat (num_rows A * num_columns A)" "a \<noteq> NULL" "a \<le> brk h"
    "data A \<noteq> NULL" "data A \<le> brk h"
    by (rule tensor_okE)
  from assms(2) obtain B ys where b: "tensors h b = Some B" "buffers h (data B) = Some ys"
    "length ys = unat (num_rows B * num_columns B)" "b \<noteq> NULL" "b \<le> brk h"
    "data B \<noteq> NULL" "data B \<le> brk h"
    by (rule tensor_okE)
  from assms(3,4) a(1) b(1) have same: "num_rows A = num_rows B" "num_columns A = num_columns B"
    and shape: "num_rows A = r" "num_columns A = c"
    by (simp_all add: tensor_shape_def)
  from tensor_broadcast_scalar_fn_equal [OF a b same, of f] assms(5) shape show ?thesis
    by auto
qed

subsection \<open>Sum\<close>

lemma tensor_sum_grad_run:
  assumes "tensors h t = Some T" "t \<noteq> NULL"
  shows "tensor_sum_grad t h =
     (Inr (Suc (Suc (brk h))),
      h\<lparr>buffers := (buffers h)(Suc (brk h) \<mapsto> replicate (unat (num_rows T * num_columns T)) 1),
        tensors := (tensors h)(Suc (Suc (brk h)) \<mapsto>
          \<lparr>data = Suc (brk h), num_rows = num_rows T, num_columns = num_columns T\<rparr>),
        brk := Suc (Suc (brk h))\<rparr>)"
  using assms by (simp add: tensor_sum_grad_def owned_tensor_run bind_prog_def load_tensor_def)

lemma tensor_sum_run:
  assumes "tensors h t = Some T" "t \<noteq> NULL" "buffers h (data T) = Some xs" "data T \<noteq> NULL"
  shows "tensor_sum t h =
     (Inr (Suc (Suc (brk h))),
      h\<lparr>buffers := (buffers h)(Suc (brk h) \<mapsto> [foldl (\<lambda>s x. s + x) 0 xs]),
        tensors := (tensors h)(Suc (Suc (brk h)) \<mapsto>
          \<lparr>data = Suc (brk h), num_rows = 1, num_columns = 1\<rparr>),
        brk := Suc (Suc (brk h))\<rparr>)"
  using assms
  by (simp add: tensor_sum_def owned_tensor_run bind_prog_def load_tensor_def load_buffer_def)

section \<open>The variable layer\<close>

lemma new_variable_from_tensor_dangling:
  assumes "tensors h t = Some T" "t \<noteq> NULL"
  shows "\<exists>v h' g. new_variable_from_tensor t h = (Inr v, h') \<and>
     variables h' v = Some \<lparr>tensor = t, gradient = g, grad_meta = Leaf_meta\<rparr> \<and>
     tensors h' g = None \<and> v = Suc (brk h) \<and> v \<le> brk h' \<and> extends h h'"
proof -
  let ?v = "Suc (brk h)"
  let ?h0 = "h\<lparr>brk := Suc (brk h)\<rparr>"
  have m: "malloc_variable h = (Inr ?v, ?h0)"
    by (simp add: malloc_variable_def)
  have "tensors ?h0 t = Some T"
    using assms(1) by simp
  from new_tensor_zeros_like_dangling [OF this assms(2)] obtain g h1
    where g: "new_tensor_zeros_like t ?h0 = (Inr g, h1)" "tensors h1 g = None"
      "extends ?h0 h1" "variables h1 = variables ?h0"
    by blast
  let ?V = "\<lparr>tensor = t, gradient = g, grad_meta = Leaf_meta\<rparr>"
  let ?h2 = "h1\<lparr>variables := (variables h1)(?v \<mapsto> ?V)\<rparr>"
  have run: "new_variable_from_tensor t h = (Inr ?v, ?h2)"
    unfolding new_variable_from_tensor_def
    by (simp only: bind_prog_Inr [where f = malloc_variable, OF m]
        bind_prog_Inr [where f = "new_tensor_zeros_like t", OF g(1)])
      (simp add: bind_prog_def store_variable_def ret_def default_grad_meta_def)
  have ext: "extends h ?h2"
    using g(3,4) by (auto simp: extends_def)
  have "?v \<le> brk ?h2"
    using g(3) by (simp add: extends_def)
  with run g(2) ext show ?thesis
    by simp
qed

lemma set_to_scalar_run:
  assumes "variables h v = Some V" "v \<noteq> NULL" "tensors h (tensor V) = Some T" "tensor V \<noteq> NULL"
    "buffers h (data T) = Some xs" "data T \<noteq> NULL"
  shows "set_to_scalar v k h =
     (Inr (), h\<lparr>buffers := (buffers h)(data T \<mapsto> replicate (length xs) k)\<rparr>)"
  using assms
  by (simp add: set_to_scalar_def tensor_set_to_scalar_value_def bind_prog_def load_variable_def
      load_tensor_def load_buffer_def store_buffer_def map_replicate_const)

lemma binary_forward_dangling:
  fixes h :: "'a::{zero,plus,minus,times} heap"
  assumes "value_ok h a" "value_ok h b" "variable_shape h a = Some (r, c)"
    "variable_shape h b = Some (r, c)" "r * c \<noteq> 0"
  shows "\<exists>h'. add_impl a b ug h = (Inl InvalidPointer, h')"
    and "\<exists>h'. subtract_impl a b ug h = (Inl InvalidPointer, h')"
    and "\<exists>h'. multiply_impl a b ug h = (Inl InvalidPointer, h')"
proof -
  from assms(1) obtain L where L: "variables h a = Some L" "a \<noteq> NULL" "tensor_ok h (tensor L)"
    by (rule value_okE)
  from assms(2) obtain R where R: "variables h b = Some R" "b \<noteq> NULL" "tensor_ok h (tensor R)"
    by (rule value_okE)
  have la: "load_variable a h = (Inr L, h)"
    using L(1,2) by (rule load_variable_live)
  have lb: "load_variable b h = (Inr R, h)"
    using R(1,2) by (rule load_variable_live)
  from assms(3,4) L(1) R(1) have shapes: "tensor_shape h (tensor L) = Some (r, c)"
    "tensor_shape h (tensor R) = Some (r, c)"
    by (simp_all add: variable_shape_def)
  have fails: "\<exists>h'. tensor_broadcast_scalar_fn (tensor L) (tensor R) f h = (Inl InvalidPointer, h')"
    for f :: "'a \<Rightarrow> 'a \<Rightarrow> 'a"
    using L(3) R(3) shapes assms(5) by (rule tensor_broadcast_scalar_fn_dangling)
  from fails [of scalar_add] obtain h1
    where "tensor_add (tensor L) (tensor R) h = (Inl InvalidPointer, h1)"
    by (auto simp: tensor_add_def)
  then show "\<exists>h'. add_impl a b ug h = (Inl InvalidPointer, h')"
    unfolding add_impl_def
    by (simp only: bind_prog_Inr [where f = "load_variable a" and h = h, OF la]
        bind_prog_Inr [where f = "load_variable b" and h = h, OF lb])
      (simp add: bind_prog_Inl)
  from fails [of scalar_subtract] obtain h2
    where "tensor_subtract (tensor L) (tensor R) h = (Inl InvalidPointer, h2)"
    by (auto simp: tensor_subtract_def)
  then show "\<exists>h'. subtract_impl a b ug h = (Inl InvalidPointer, h')"
    unfolding subtract_impl_def
    by (simp only: bind_prog_Inr [where f = "load_variable a" and h = h, OF la]
        bind_prog_Inr [where f = "load_variable b" and h = h, OF lb])
      (simp add: bind_prog_Inl)
  from fails [of scalar_multiply] obtain h3
    where "tensor_multiply (tensor L) (tensor R) h = (Inl InvalidPointer, h3)"
    by (auto simp: tensor_multiply_def)
  then show "\<exists>h'. multiply_impl a b ug h = (Inl InvalidPointer, h')"
    unfolding multiply_impl_def
    by (simp only: bind_prog_Inr [where f = "load_variable a" and h = h, OF la]
        bind_prog_Inr [where f = "load_variable b" and h = h, OF lb])
      (simp add: bind_prog_Inl)
qed

lemma backward_copy_dangling:
  fixes h :: "'a::{zero,one,uminus,times} heap"
  assumes "variables h child = Some C" "child \<noteq> NULL" "tensors h (gradient C) = Some G"
    "gradient C \<noteq> NULL"
  shows "\<exists>h'. call_binary_backwards fn arg other_arg child h = (Inl InvalidPointer, h')"
proof -
  have lc: "load_variable child h = (Inr C, h)"
    using assms(1,2) by (rule load_variable_live)
  from copy_tensor_fails [OF assms(3,4)] obtain h1
    where cp: "copy_tensor (gradient C) h = (Inl InvalidPointer, h1)"
    by blast
  show ?thesis
  proof (cases fn)
    case Add_grad_backwards
    then show ?thesis
      using cp
      by (simp add: add_grad_backwards_def bind_prog_Inr [where f = "load_variable child", OF lc])
  next
    case Subtract_grad_backwards
    then show ?thesis
      using cp
      by (simp add: subtract_grad_backwards_def
          bind_prog_Inr [where f = "load_variable child", OF lc] bind_prog_Inl)
  next
    case Multiply_grad_backwards
    then show ?thesis
      using cp
      by (simp add: multiply_grad_backwards_def
          bind_prog_Inr [where f = "load_variable child", OF lc] bind_prog_Inl)
  qed
qed

text \<open>
  The backward function of sum up to its elementwise multiply: the all-ones tensor of
  the operand's shape, and the child's value tensor as the right operand.
\<close>

lemma sum_grad_backwards_step:
  assumes "variables h arg = Some A" "arg \<noteq> NULL" "tensors h (tensor A) = Some TA"
    "tensor A \<noteq> NULL" "variables h child = Some R" "child \<noteq> NULL"
  shows "sum_grad_backwards arg child h =
     tensor_multiply (Suc (Suc (brk h))) (tensor R)
      (h\<lparr>buffers := (buffers h)(Suc (brk h) \<mapsto> replicate (unat (num_rows TA * num_columns TA)) 1),
        tensors := (tensors h)(Suc (Suc (brk h)) \<mapsto>
          \<lparr>data = Suc (brk h), num_rows = num_rows TA, num_columns = num_columns TA\<rparr>),
        brk := Suc (Suc (brk h))\<rparr>)"
proof -
  let ?h1 = "h\<lparr>buffers := (buffers h)(Suc (brk h) \<mapsto> replicate (unat (num_rows TA * num_columns TA)) (1::'a)),
        tensors := (tensors h)(Suc (Suc (brk h)) \<mapsto>
          \<lparr>data = Suc (brk h), num_rows = num_rows TA, num_columns = num_columns TA\<rparr>),
        brk := Suc (Suc (brk h))\<rparr>"
  have la: "load_variable arg h = (Inr A, h)"
    using assms(1,2) by (rule load_variable_live)
  have sg: "tensor_sum_grad (tensor A) h = (Inr (Suc (Suc (brk h))), ?h1)"
    by (rule tensor_sum_grad_run [OF assms(3,4)])
  have lr: "load_variable child ?h1 = (Inr R, ?h1)"
    using assms(5,6) by (simp add: load_variable_def)
  show ?thesis
    unfolding sum_grad_backwards_def
    by (simp only: bind_prog_Inr [where f = "load_variable arg" and h = h, OF la]
        bind_prog_Inr [where f = "tensor_sum_grad (tensor A)" and h = h, OF sg]
        bind_prog_Inr [where f = "load_variable child" and h = ?h1, OF lr])
qed

lemma sum_grad_backwards_mismatch:
  assumes "value_ok h arg" "value_ok h child" "variable_shape h arg \<noteq> variable_shape h child"
  shows "\<exists>h'. sum_grad_backwards arg child h = (Inl ShapeMismatch, h')"
proof -
  from assms(1) obtain A where A: "variables h arg = Some A" "arg \<noteq> NULL"
    and okA: "tensor_ok h (tensor A)"
    by (rule value_okE)
  from okA obtain TA where TA: "tensors h (tensor A) = Some TA" "tensor A \<noteq> NULL"
    by (rule tensor_okE)
  from assms(2) obtain R where R: "variables h child = Some R" "child \<noteq> NULL"
    and okR: "tensor_ok h (tensor R)"
    by (rule value_okE)
  from okR obtain TR where TR: "tensors h (tensor R) = Some TR" "tensor R \<noteq> NULL"
    "tensor R \<le> brk h"
    by (rule tensor_okE)
  let ?N = "\<lparr>data = Suc (brk h), num_rows = num_rows TA, num_columns = num_columns TA\<rparr>"
  let ?h1 = "h\<lparr>buffers := (buffers h)(Suc (brk h) \<mapsto> replicate (unat (num_rows TA * num_columns TA)) (1::'a)),
        tensors := (tensors h)(Suc (Suc (brk h)) \<mapsto> ?N),
        brk := Suc (Suc (brk h))\<rparr>"
  from assms(3) A(1) R(1) TA(1) TR(1)
  have differ: "num_columns ?N \<noteq> num_columns TR \<or> num_rows ?N \<noteq> num_rows TR"
    by (auto simp: variable_shape_def tensor_shape_def)
  have "tensor_broadcast_scalar_fn (Suc (Suc (brk h))) (tensor R) scalar_multiply ?h1 =
      (Inl ShapeMismatch, ?h1)"
    using TR differ
    by (intro tensor_broadcast_scalar_fn_mismatch [where L = ?N and R = TR])
      (auto simp: NULL_def)
  then show ?thesis
    unfolding sum_grad_backwards_step [OF A TA R] tensor_multiply_def by blast
qed

lemma sum_grad_backwards_same_shape:
  fixes h :: "'a::{zero,one,times} heap"
  assumes "value_ok h arg" "value_ok h child" "variable_shape h arg = Some (r, c)"
    "variable_shape h child = Some (r, c)" "r * c \<noteq> 0"
  shows "\<exists>h'. sum_grad_backwards arg child h = (Inl InvalidPointer, h')"
proof -
  from assms(1) obtain A where A: "variables h arg = Some A" "arg \<noteq> NULL"
    and okA: "tensor_ok h (tensor A)"
    by (rule value_okE)
  from okA obtain TA where TA: "tensors h (tensor A) = Some TA" "tensor A \<noteq> NULL"
    by (rule tensor_okE)
  from assms(2) obtain R where R: "variables h child = Some R" "child \<noteq> NULL"
    and okR: "tensor_ok h (tensor R)"
    by (rule value_okE)
  let ?ones = "Suc (Suc (brk h))"
  let ?N = "\<lparr>data = Suc (brk h), num_rows = num_rows TA, num_columns = num_columns TA\<rparr>"
  let ?h1 = "h\<lparr>buffers := (buffers h)(Suc (brk h) \<mapsto> replicate (unat (num_rows TA * num_columns TA)) (1::'a)),
        tensors := (tensors h)(?ones \<mapsto> ?N),
        brk := Suc (Suc (brk h))\<rparr>"
  have ext: "extends h ?h1"
    by (simp add: extends_def)
  from assms(3) A(1) TA(1) have shapeA: "num_rows TA = r" "num_columns TA = c"
    by (simp_all add: variable_shape_def tensor_shape_def)
  have ones: "tensor_ok ?h1 ?ones" "tensor_shape ?h1 ?ones = Some (r, c)"
    using shapeA by (simp_all add: tensor_ok_def tensor_shape_def NULL_def)
  have right: "tensor_ok ?h1 (tensor R)" "tensor_shape ?h1 (tensor R) = Some (r, c)"
    using extends_tensor_ok(1,3) [OF ext okR] assms(4) R(1)
    by (simp_all add: variable_shape_def)
  from tensor_broadcast_scalar_fn_dangling [OF ones(1) right(1) ones(2) right(2) assms(5)]
  show ?thesis
    unfolding sum_grad_backwards_step [OF A TA R] tensor_multiply_def by blast
qed

lemma sum_variable_result:
  fixes h :: "'a::{zero,plus} heap"
  assumes "value_ok h arg"
  shows "\<exists>c h1 C. sum_variable arg h = (Inr c, h1) \<and> value_ok h1 arg \<and> value_ok h1 c \<and>
     variable_shape h1 arg = variable_shape h arg \<and> variable_shape h1 c = Some (1, 1) \<and>
     variables h1 c = Some C \<and> grad_meta C = Unary_meta arg Sum_grad_backwards \<and>
     tensors h1 (gradient C) = None"
proof -
  from assms obtain A where A: "variables h arg = Some A" "arg \<noteq> NULL"
    and okA: "tensor_ok h (tensor A)"
    by (rule value_okE)
  from okA obtain TA xs where TA: "tensors h (tensor A) = Some TA" "tensor A \<noteq> NULL"
    "buffers h (data TA) = Some xs" "data TA \<noteq> NULL"
    by (rule tensor_okE)
  let ?nt = "Suc (Suc (brk h))"
  let ?N = "\<lparr>data = Suc (brk h), num_rows = 1, num_columns = 1\<rparr> :: tensor_t"
  let ?hA = "h\<lparr>buffers := (buffers h)(Suc (brk h) \<mapsto> [foldl (\<lambda>s x. s + x) 0 xs]),
        tensors := (tensors h)(?nt \<mapsto> ?N), brk := Suc (Suc (brk h))\<rparr>"
  have la: "load_variable arg h = (Inr A, h)"
    using A by (rule load_variable_live)
  have ts: "tensor_sum (tensor A) h = (Inr ?nt, ?hA)"
    by (rule tensor_sum_run [OF TA])
  have extA: "extends h ?hA"
    by (simp add: extends_def)
  have okN: "tensor_ok ?hA ?nt" "tensor_shape ?hA ?nt = Some (1, 1)"
    by (simp_all add: tensor_ok_def tensor_shape_def NULL_def)
  have "tensors ?hA ?nt = Some ?N" "?nt \<noteq> NULL"
    by (simp_all add: NULL_def)
  from new_variable_from_tensor_dangling [OF this] obtain v hB g
    where nv: "new_variable_from_tensor ?nt ?hA = (Inr v, hB)"
      "variables hB v = Some \<lparr>tensor = ?nt, gradient = g, grad_meta = Leaf_meta\<rparr>"
      "tensors hB g = None" "v = Suc (brk ?hA)" "v \<le> brk hB" "extends ?hA hB"
    by blast
  let ?C = "\<lparr>tensor = ?nt, gradient = g, grad_meta = Unary_meta arg Sum_grad_backwards\<rparr>"
  let ?hC = "hB\<lparr>variables := (variables hB)(v \<mapsto> ?C)\<rparr>"
  have v: "v \<noteq> NULL"
    using nv(4) by (simp add: NULL_def)
  have setm: "unary_set_grad_meta v arg Sum_grad_backwards hB = (Inr (), ?hC)"
    using nv(2) v
    by (simp add: unary_set_grad_meta_def bind_prog_def load_variable_def store_variable_def)
  have run: "sum_variable arg h = (Inr v, ?hC)"
    unfolding sum_variable_def sum_impl_def
    by (simp only: bind_prog_Inr [where f = "load_variable arg" and h = h, OF la]
        bind_prog_Inr [where f = "tensor_sum (tensor A)" and h = h, OF ts]
        bind_prog_Inr [where f = "new_variable_from_tensor ?nt" and h = ?hA, OF nv(1)]
        if_True
        bind_prog_Inr [where f = "unary_set_grad_meta v arg Sum_grad_backwards" and h = hB, OF setm])
      (simp add: ret_def)
  have extB: "extends h hB"
    using extA nv(6) by (rule extends_trans)
  have extC: "extends h ?hC"
    using extB nv(4) by (auto simp: extends_def)
  have okC: "tensor_ok ?hC ?nt" "tensor_shape ?hC ?nt = Some (1, 1)"
    using extends_tensor_ok(1,3) [OF nv(6) okN(1)] okN(2)
    by (simp_all add: tensor_ok_variables_update tensor_shape_def)
  have "value_ok ?hC v" "variable_shape ?hC v = Some (1, 1)"
    using okC v nv(5) by (simp_all add: value_ok_def variable_shape_def)
  moreover have "variables ?hC v = Some ?C" "grad_meta ?C = Unary_meta arg Sum_grad_backwards"
    "tensors ?hC (gradient ?C) = None"
    using nv(3) by simp_all
  moreover note extends_value_ok(1,3) [OF extC assms] run
  ultimately show ?thesis
    by blast
qed

lemma shape_one_one:
  fixes r c :: tensor_size_t
  assumes "1 < r * c \<or> 1 < unat r * unat c"
  shows "(r, c) \<noteq> (1, 1)"
  using assms by auto

section \<open>The example heap\<close>

lemma example_heap_variables:
  "variables example_heap 3 = Some \<lparr>tensor = 2, gradient = 5, grad_meta = Leaf_meta\<rparr>"
  "variables example_heap 8 = Some \<lparr>tensor = 7, gradient = 10, grad_meta = Leaf_meta\<rparr>"
  "variables example_heap 17 = Some \<lparr>tensor = 16, gradient = 19, grad_meta = Leaf_meta\<rparr>"
  "variables example_heap 22 =
     Some \<lparr>tensor = 21, gradient = 24, grad_meta = Unary_meta 17 Sum_grad_backwards\<rparr>"
  "variables example_heap 27 =
     Some \<lparr>tensor = 26, gradient = 29,
       grad_meta = Binary_meta 3 8 Multiply_grad_backwards Multiply_grad_backwards\<rparr>"
  by (simp_all add: example_heap_def)

lemma example_heap_tensors:
  "tensors example_heap 2 = Some \<lparr>data = 1, num_rows = 2, num_columns = 2\<rparr>"
  "tensors example_heap 7 = Some \<lparr>data = 6, num_rows = 2, num_columns = 2\<rparr>"
  "tensors example_heap 16 = Some \<lparr>data = 15, num_rows = 1, num_columns = 1\<rparr>"
  "tensors example_heap 21 = Some \<lparr>data = 20, num_rows = 1, num_columns = 1\<rparr>"
  "tensors example_heap 24 = Some \<lparr>data = 23, num_rows = 1, num_columns = 1\<rparr>"
  "tensors example_heap 29 = Some \<lparr>data = 28, num_rows = 2, num_columns = 2\<rparr>"
  by (simp_all add: example_heap_def)

lemma example_heap_entries:
  "tensor_entries example_heap 2 = Some [3, 3, 3, 3]"
  "tensor_entries example_heap 7 = Some [4, 4, 4, 4]"
  "tensor_entries example_heap 21 = Some [48]"
  "tensor_entries example_heap 24 = Some [1]"
  "tensor_entries example_heap 29 = Some [1, 1, 1, 1]"
  by (simp_all add: tensor_entries_def example_heap_def)

lemma example_heap_variable_ok:
  "variable_ok example_heap 3" "variable_ok example_heap 8" "variable_ok example_heap 17"
  "variable_ok example_heap 22" "variable_ok example_heap 27"
  by (simp_all add: variable_ok_def tensor_ok_def tensor_shape_def example_heap_def NULL_def)

lemma example_shapes:
  "variable_shape example_heap 3 = Some (2, 2)" "variable_shape example_heap 8 = Some (2, 2)"
  by (simp_all add: variable_shape_def tensor_shape_def example_heap_def)

section \<open>The claims\<close>



text \<open>
  C3. The variable that \<open>sum_variable arg\<close> returns has a 1x1 value. In every heap where
  \<open>arg\<close> and a child with a 1x1 value have well-formed values (the heap right after the
  call is one), the backward function of sum, \<open>sum_grad_backwards arg child\<close>, fails
  with \<open>ShapeMismatch\<close>, the assertion of the elementwise multiply, unless \<open>arg\<close> is 1x1
  itself: in particular whenever \<open>arg\<close> has more than one entry
  (\<open>num_rows * num_columns > 1\<close>, as the 64-bit product or as the product of numbers).
  With a 1x1 \<open>arg\<close> the assertion holds, and the call ends in \<open>InvalidPointer\<close>, at the
  write through the pointer \<open>new_tensor_like\<close> has returned: the function returns a
  tensor in neither case.
\<close>

theorem sum_backward_shape_mismatch:
  fixes h :: "'a::{zero,one,plus,times} heap"
  assumes "value_ok h arg"
  shows "(\<exists>c h1. sum_variable arg h = (Inr c, h1) \<and> value_ok h1 arg \<and> value_ok h1 c \<and>
            variable_shape h1 arg = variable_shape h arg \<and> variable_shape h1 c = Some (1, 1)) \<and>
         (\<forall>(h1 :: 'a heap) child. value_ok h1 arg \<and> value_ok h1 child \<and>
            variable_shape h1 child = Some (1, 1) \<longrightarrow>
            (if variable_shape h1 arg = Some (1, 1)
             then \<exists>h'. sum_grad_backwards arg child h1 = (Inl InvalidPointer, h')
             else \<exists>h'. sum_grad_backwards arg child h1 = (Inl ShapeMismatch, h')) \<and>
            (\<forall>r c. variable_shape h1 arg = Some (r, c) \<and> (1 < r * c \<or> 1 < unat r * unat c) \<longrightarrow>
               (\<exists>h'. sum_grad_backwards arg child h1 = (Inl ShapeMismatch, h'))))"
proof (intro conjI allI impI)
  show "\<exists>c h1. sum_variable arg h = (Inr c, h1) \<and> value_ok h1 arg \<and> value_ok h1 c \<and>
      variable_shape h1 arg = variable_shape h arg \<and> variable_shape h1 c = Some (1, 1)"
    using sum_variable_result [OF assms] by blast
next
  fix h1 :: "'a heap" and child
  assume hyp: "value_ok h1 arg \<and> value_ok h1 child \<and> variable_shape h1 child = Some (1, 1)"
  then have oks: "value_ok h1 arg" "value_ok h1 child" "variable_shape h1 child = Some (1, 1)"
    by simp_all
  have fails: "\<exists>h'. sum_grad_backwards arg child h1 = (Inl ShapeMismatch, h')"
    if "variable_shape h1 arg \<noteq> Some (1, 1)"
    using that oks(3) by (intro sum_grad_backwards_mismatch [OF oks(1,2)]) simp
  have passes: "\<exists>h'. sum_grad_backwards arg child h1 = (Inl InvalidPointer, h')"
    if "variable_shape h1 arg = Some (1, 1)"
    using oks(1,2) that oks(3) by (rule sum_grad_backwards_same_shape) simp
  show "if variable_shape h1 arg = Some (1, 1)
     then \<exists>h'. sum_grad_backwards arg child h1 = (Inl InvalidPointer, h')
     else \<exists>h'. sum_grad_backwards arg child h1 = (Inl ShapeMismatch, h')"
    using fails passes by simp
  show "\<exists>h'. sum_grad_backwards arg child h1 = (Inl ShapeMismatch, h')"
    if "variable_shape h1 arg = Some (r, c) \<and> (1 < r * c \<or> 1 < unat r * unat c)" for r c
    using that shape_one_one [of r c] by (intro fails) auto
qed

theorem sum_backward_shape_mismatch_witness:
  "value_ok example_heap 3 \<and> value_ok example_heap 17 \<and> value_ok example_heap 22 \<and>
   variable_shape example_heap 22 = Some (1, 1) \<and> variable_shape example_heap 3 = Some (2, 2) \<and>
   variable_shape example_heap 17 = Some (1, 1) \<and>
   (\<exists>c h1. sum_variable 3 example_heap = (Inr c, h1) \<and> variable_shape h1 c = Some (1, 1)) \<and>
   (\<exists>h'. sum_grad_backwards 3 22 example_heap = (Inl ShapeMismatch, h')) \<and>
   (\<exists>h'. sum_grad_backwards 17 22 example_heap = (Inl InvalidPointer, h'))"
proof -
  have hyps: "value_ok example_heap 3" "value_ok example_heap 17" "value_ok example_heap 22"
    "variable_shape example_heap 22 = Some (1, 1)"
    and shape: "variable_shape example_heap 3 = Some (2, 2)"
      "variable_shape example_heap 17 = Some (1, 1)"
    by (simp_all add: tensor_ok_def value_ok_def variable_shape_def tensor_shape_def
        example_heap_def NULL_def)
  note main = sum_backward_shape_mismatch [OF hyps(1)]
  note one = sum_backward_shape_mismatch [OF hyps(2)]
  from main have "\<exists>c h1. sum_variable 3 example_heap = (Inr c, h1) \<and> variable_shape h1 c = Some (1, 1)"
    by blast
  moreover from main hyps shape
  have "\<exists>h'. sum_grad_backwards 3 22 example_heap = (Inl ShapeMismatch, h')"
    by auto
  moreover from one hyps shape
  have "\<exists>h'. sum_grad_backwards 17 22 example_heap = (Inl InvalidPointer, h')"
    by auto
  ultimately show ?thesis
    using hyps shape by simp
qed

text \<open>
  C4. The claim asks that the backward contribution for an operand of \<open>multiply\<close> be the
  child's gradient times the other operand's value. \<open>Multiply_grad_backwards\<close> starts
  with \<open>copy_tensor\<close> of the child's gradient, and \<open>copy_tensor\<close> reads the tensor that
  \<open>new_tensor_like\<close> returns, the compound literal of \<open>new_tensor\<close>, dead at its return. On
  the example heap, with \<open>c\<close> holding the GradMeta of \<open>multiply a b\<close> and an all-ones
  gradient, the backward function ends in \<open>InvalidPointer\<close> for either operand, before
  the product with the other operand's value is taken, and returns no tensor; so does
  \<open>multiply a b\<close> itself, whose elementwise product writes through such a pointer.
\<close>

theorem multiply_backward_dangling:
  "variable_ok example_heap 3 \<and> variable_ok example_heap 8 \<and> variable_ok example_heap 27 \<and>
   (\<exists>C. variables example_heap 27 = Some C \<and>
      grad_meta C = Binary_meta 3 8 Multiply_grad_backwards Multiply_grad_backwards \<and>
      tensor_entries example_heap (gradient C) = Some [1, 1, 1, 1]) \<and>
   (\<exists>h'. call_binary_backwards Multiply_grad_backwards 3 8 27 example_heap =
      (Inl InvalidPointer, h')) \<and>
   (\<exists>h'. call_binary_backwards Multiply_grad_backwards 8 3 27 example_heap =
      (Inl InvalidPointer, h')) \<and>
   (\<exists>h'. multiply 3 8 example_heap = (Inl InvalidPointer, h'))"
proof -
  have child: "\<exists>C. variables example_heap 27 = Some C \<and>
      grad_meta C = Binary_meta 3 8 Multiply_grad_backwards Multiply_grad_backwards \<and>
      tensor_entries example_heap (gradient C) = Some [1, 1, 1, 1]"
    by (simp add: example_heap_variables example_heap_entries)
  have bwd: "\<exists>h'. call_binary_backwards Multiply_grad_backwards x y 27 example_heap =
      (Inl InvalidPointer, h')" for x y
    by (rule backward_copy_dangling [OF example_heap_variables(5)])
      (simp_all add: example_heap_tensors NULL_def)
  have fwd: "\<exists>h'. multiply 3 8 example_heap = (Inl InvalidPointer, h')"
    unfolding multiply_def
    by (rule binary_forward_dangling(3) [where r = 2 and c = 2])
      (simp_all add: variable_ok_value_ok example_heap_variable_ok example_shapes)
  from child bwd fwd example_heap_variable_ok show ?thesis
    by blast
qed

text \<open>
  C5. The claim asks that the backward function of each operand of \<open>add\<close> return a copy
  of the child's gradient. \<open>add\<close> does give both operand slots \<open>Add_grad_backwards\<close>, and
  that function is \<open>copy_tensor\<close> of the child's gradient; but \<open>copy_tensor\<close> reads the
  tensor that \<open>new_tensor_like\<close> returns, the compound literal of \<open>new_tensor\<close>, dead at its
  return. On the example heap, with the child \<open>c\<close> whose gradient is all ones, the
  backward function of either operand ends in \<open>InvalidPointer\<close> and returns no tensor;
  so does \<open>add a b\<close> itself, whose elementwise sum writes through such a pointer.
\<close>

theorem add_backward_dangling:
  "variable_ok example_heap 3 \<and> variable_ok example_heap 8 \<and> variable_ok example_heap 27 \<and>
   (\<exists>C. variables example_heap 27 = Some C \<and>
      tensor_entries example_heap (gradient C) = Some [1, 1, 1, 1]) \<and>
   add 3 8 =
     bind_prog (add_impl 3 8 False) (\<lambda>c.
     bind_prog (binary_set_grad_meta c 3 8 Add_grad_backwards Add_grad_backwards) (\<lambda>_.
     (ret c :: (int, addr) prog))) \<and>
   (\<exists>h'. call_binary_backwards Add_grad_backwards 3 8 27 example_heap = (Inl InvalidPointer, h')) \<and>
   (\<exists>h'. call_binary_backwards Add_grad_backwards 8 3 27 example_heap = (Inl InvalidPointer, h')) \<and>
   (\<exists>h'. add 3 8 example_heap = (Inl InvalidPointer, h'))"
proof -
  have wiring: "add 3 8 =
     bind_prog (add_impl 3 8 False) (\<lambda>c.
     bind_prog (binary_set_grad_meta c 3 8 Add_grad_backwards Add_grad_backwards) (\<lambda>_.
     (ret c :: (int, addr) prog)))"
    by (simp add: add_def add_impl_def bind_prog_assoc bind_prog_ret)
  have child: "\<exists>C. variables example_heap 27 = Some C \<and>
      tensor_entries example_heap (gradient C) = Some [1, 1, 1, 1]"
    by (simp add: example_heap_variables example_heap_entries)
  have bwd: "\<exists>h'. call_binary_backwards Add_grad_backwards x y 27 example_heap =
      (Inl InvalidPointer, h')" for x y
    by (rule backward_copy_dangling [OF example_heap_variables(5)])
      (simp_all add: example_heap_tensors NULL_def)
  have fwd: "\<exists>h'. add 3 8 example_heap = (Inl InvalidPointer, h')"
    unfolding add_def
    by (rule binary_forward_dangling(1) [where r = 2 and c = 2])
      (simp_all add: variable_ok_value_ok example_heap_variable_ok example_shapes)
  from wiring child bwd fwd example_heap_variable_ok show ?thesis
    by blast
qed

text \<open>
  C6. The claim asks that the elementwise operations return a new tensor holding
  \<open>a[i] + b[i]\<close>, \<open>a[i] - b[i]\<close>, \<open>a[i] * b[i]\<close>. The code does not: the tensor that
  \<open>new_tensor_like\<close> returns is the compound literal of \<open>new_tensor\<close>, dead at its return,
  and the loop writes through it. On the example heap, with the 2x2 tensors of \<open>a\<close> and
  \<open>b\<close>, each of the three operations ends in \<open>InvalidPointer\<close> at the first entry.
\<close>

theorem elementwise_binary_dangling:
  "tensor_ok example_heap 2 \<and> tensor_ok example_heap 7 \<and>
   tensor_shape example_heap 2 = Some (2, 2) \<and> tensor_shape example_heap 7 = Some (2, 2) \<and>
   (\<exists>h'. tensor_add 2 7 example_heap = (Inl InvalidPointer, h')) \<and>
   (\<exists>h'. tensor_subtract 2 7 example_heap = (Inl InvalidPointer, h')) \<and>
   (\<exists>h'. tensor_multiply 2 7 example_heap = (Inl InvalidPointer, h'))"
proof -
  let ?A = "\<lparr>data = 1, num_rows = 2, num_columns = 2\<rparr> :: tensor_t"
  let ?B = "\<lparr>data = 6, num_rows = 2, num_columns = 2\<rparr> :: tensor_t"
  have a: "tensors example_heap 2 = Some ?A" "buffers example_heap (data ?A) = Some [3, 3, 3, 3]"
    "length [3, 3, 3, 3 :: int] = unat (num_rows ?A * num_columns ?A)" "2 \<noteq> NULL"
    "2 \<le> brk example_heap" "data ?A \<noteq> NULL" "data ?A \<le> brk example_heap"
    by (simp_all add: example_heap_def NULL_def)
  have b: "tensors example_heap 7 = Some ?B" "buffers example_heap (data ?B) = Some [4, 4, 4, 4]"
    "length [4, 4, 4, 4 :: int] = unat (num_rows ?B * num_columns ?B)" "7 \<noteq> NULL"
    "7 \<le> brk example_heap" "data ?B \<noteq> NULL" "data ?B \<le> brk example_heap"
    by (simp_all add: example_heap_def NULL_def)
  have same: "num_rows ?A = num_rows ?B" "num_columns ?A = num_columns ?B"
    by simp_all
  have nonempty: "num_rows ?A * num_columns ?A \<noteq> 0"
    by simp
  have fails: "\<exists>h'. tensor_broadcast_scalar_fn 2 7 f example_heap = (Inl InvalidPointer, h')"
    for f :: "int \<Rightarrow> int \<Rightarrow> int"
    using tensor_broadcast_scalar_fn_equal [OF a b same, of f] nonempty by auto
  have ok: "tensor_ok example_heap 2" "tensor_ok example_heap 7"
    "tensor_shape example_heap 2 = Some (2, 2)" "tensor_shape example_heap 7 = Some (2, 2)"
    by (simp_all add: tensor_ok_def tensor_shape_def example_heap_def NULL_def)
  from ok fails show ?thesis
    by (simp add: tensor_add_def tensor_subtract_def tensor_multiply_def)
qed

text \<open>
  C7. On (well-formed) tensors \<open>a\<close>, \<open>b\<close> of different shapes, each of \<open>tensor_add\<close>,
  \<open>tensor_subtract\<close> and \<open>tensor_multiply\<close> fails with \<open>ShapeMismatch\<close> leaving the heap
  exactly as it was: nothing is allocated and no tensor is written. On tensors of one
  shape none of them fails with \<open>ShapeMismatch\<close>.
\<close>

theorem elementwise_binary_shape_mismatch:
  fixes h :: "'a::{zero,plus,minus,times} heap"
  assumes "tensor_ok h a" "tensor_ok h b"
  shows "\<forall>op \<in> set [tensor_add, tensor_subtract, tensor_multiply].
     (if tensor_shape h a = tensor_shape h b then (\<forall>h'. op a b h \<noteq> (Inl ShapeMismatch, h'))
      else op a b h = (Inl ShapeMismatch, h))"
proof -
  from assms(1) obtain A xs where a: "tensors h a = Some A" "buffers h (data A) = Some xs"
    "length xs = unat (num_rows A * num_columns A)" "a \<noteq> NULL" "a \<le> brk h"
    "data A \<noteq> NULL" "data A \<le> brk h"
    by (rule tensor_okE)
  from assms(2) obtain B ys where b: "tensors h b = Some B" "buffers h (data B) = Some ys"
    "length ys = unat (num_rows B * num_columns B)" "b \<noteq> NULL" "b \<le> brk h"
    "data B \<noteq> NULL" "data B \<le> brk h"
    by (rule tensor_okE)
  show ?thesis
  proof (cases "tensor_shape h a = tensor_shape h b")
    case True
    with a(1) b(1) have same: "num_rows A = num_rows B" "num_columns A = num_columns B"
      by (simp_all add: tensor_shape_def)
    have "tensor_broadcast_scalar_fn a b f h \<noteq> (Inl ShapeMismatch, h')"
      for f :: "'a \<Rightarrow> 'a \<Rightarrow> 'a" and h'
      using tensor_broadcast_scalar_fn_equal [OF a b same, of f] by (auto split: if_splits)
    with True show ?thesis
      by (simp add: tensor_add_def tensor_subtract_def tensor_multiply_def)
  next
    case False
    with a(1) b(1) have "num_columns A \<noteq> num_columns B \<or> num_rows A \<noteq> num_rows B"
      by (auto simp: tensor_shape_def)
    from tensor_broadcast_scalar_fn_mismatch [OF a(1,4) b(1,4) this] False show ?thesis
      by (simp add: tensor_add_def tensor_subtract_def tensor_multiply_def)
  qed
qed

theorem elementwise_binary_shape_mismatch_witness:
  "tensor_ok example_heap 12 \<and> tensor_ok example_heap 14 \<and>
   tensor_shape example_heap 12 = Some (2, 3) \<and> tensor_shape example_heap 14 = Some (3, 2) \<and>
   tensor_add 12 14 example_heap = (Inl ShapeMismatch, example_heap) \<and>
   tensor_subtract 12 14 example_heap = (Inl ShapeMismatch, example_heap) \<and>
   tensor_multiply 12 14 example_heap = (Inl ShapeMismatch, example_heap)"
proof -
  have hyps: "tensor_ok example_heap 12" "tensor_ok example_heap 14"
    by (simp_all add: tensor_ok_def example_heap_def NULL_def)
  have shapes: "tensor_shape example_heap 12 = Some (2, 3)"
    "tensor_shape example_heap 14 = Some (3, 2)"
    by (simp_all add: tensor_shape_def example_heap_def)
  from elementwise_binary_shape_mismatch [OF hyps] hyps shapes show ?thesis
    by simp
qed

text \<open>
  C8. The claim asks that a variable have, when it is created, a gradient tensor of the
  shape of its value tensor with every entry zero. The code does not give it one: the
  gradient that \<open>new_variable_from_tensor\<close> stores is the pointer \<open>new_tensor_zeros_like\<close>
  returns, the compound literal of \<open>new_tensor\<close>, dead at its return. On the example
  heap, the variable made from the 2x2 tensor of \<open>a\<close> has a gradient pointer that holds
  no tensor, and so has the variable that \<open>sum_variable x\<close> returns.
\<close>

theorem new_variable_gradient_dangling:
  "tensor_ok example_heap 2 \<and>
   (\<exists>v h' V. new_variable_from_tensor 2 example_heap = (Inr v, h') \<and>
      variables h' v = Some V \<and> tensor V = 2 \<and> tensor_shape h' (tensor V) = Some (2, 2) \<and>
      tensors h' (gradient V) = None \<and> tensor_shape h' (gradient V) = None \<and>
      \<not> gradient_zero h' v) \<and>
   value_ok example_heap 17 \<and>
   (\<exists>c h1 C. sum_variable 17 example_heap = (Inr c, h1) \<and>
      variables h1 c = Some C \<and> variable_shape h1 c = Some (1, 1) \<and>
      tensors h1 (gradient C) = None \<and> tensor_shape h1 (gradient C) = None \<and>
      \<not> gradient_zero h1 c)"
proof -
  have x: "value_ok example_heap 17"
    by (simp add: variable_ok_value_ok example_heap_variable_ok)
  from sum_variable_result [OF x] obtain c h1 C
    where sum: "sum_variable 17 example_heap = (Inr c, h1)" "variables h1 c = Some C"
      "variable_shape h1 c = Some (1, 1)" "tensors h1 (gradient C) = None"
    by blast
  then have summed: "\<exists>c h1 C. sum_variable 17 example_heap = (Inr c, h1) \<and>
      variables h1 c = Some C \<and> variable_shape h1 c = Some (1, 1) \<and>
      tensors h1 (gradient C) = None \<and> tensor_shape h1 (gradient C) = None \<and>
      \<not> gradient_zero h1 c"
    by (auto simp: gradient_zero_def tensor_shape_def variable_shape_def split: option.splits)
  have t: "tensors example_heap 2 = Some \<lparr>data = 1, num_rows = 2, num_columns = 2\<rparr>" "2 \<noteq> NULL"
    by (simp_all add: example_heap_def NULL_def)
  have ok: "tensor_ok example_heap 2"
    by (simp add: tensor_ok_def example_heap_def NULL_def)
  from new_variable_from_tensor_dangling [OF t] obtain v h' g
    where run: "new_variable_from_tensor 2 example_heap = (Inr v, h')"
      "variables h' v = Some \<lparr>tensor = 2, gradient = g, grad_meta = Leaf_meta\<rparr>"
      "tensors h' g = None" "extends example_heap h'"
    by blast
  from extends_tensor_ok(3) [OF run(4) ok] have "tensor_shape h' 2 = Some (2, 2)"
    by (simp add: tensor_shape_def example_heap_def)
  with run ok have "\<exists>v h' V. new_variable_from_tensor 2 example_heap = (Inr v, h') \<and>
      variables h' v = Some V \<and> tensor V = 2 \<and> tensor_shape h' (tensor V) = Some (2, 2) \<and>
      tensors h' (gradient V) = None \<and> tensor_shape h' (gradient V) = None \<and>
      \<not> gradient_zero h' v"
    by (auto simp: gradient_zero_def tensor_shape_def)
  with ok x summed show ?thesis
    by blast
qed

text \<open>
  C9. The claim asks that \<open>copy_tensor t\<close> return a new tensor with the shape and the
  entries of \<open>t\<close>. The code does not: \<open>copy_tensor\<close> reads \<^verbatim>\<open>new_tensor->data\<close> of the
  tensor that \<open>new_tensor_like\<close> returns, the compound literal of \<open>new_tensor\<close>, dead at
  its return. On the example heap, the copy of the 2x3 tensor ends in
  \<open>InvalidPointer\<close> before an entry is copied.
\<close>

theorem copy_tensor_dangling:
  "tensor_ok example_heap 12 \<and> tensor_entries example_heap 12 = Some [1, 2, 3, 4, 5, 6] \<and>
   (\<exists>h'. copy_tensor 12 example_heap = (Inl InvalidPointer, h'))"
proof -
  have t: "tensors example_heap 12 = Some \<lparr>data = 11, num_rows = 2, num_columns = 3\<rparr>"
    "12 \<noteq> NULL"
    by (simp_all add: example_heap_def NULL_def)
  have "tensor_ok example_heap 12" "tensor_entries example_heap 12 = Some [1, 2, 3, 4, 5, 6]"
    by (simp_all add: tensor_ok_def tensor_entries_def example_heap_def NULL_def)
  with copy_tensor_fails [OF t] show ?thesis
    by blast
qed

text \<open>
  C10. For every variable \<open>v\<close> with a well-formed value whose gradient does not share
  the value's buffer, and every scalar \<open>k\<close>, \<open>set_to_scalar v k\<close> returns with every
  entry of the value tensor of \<open>v\<close> equal to \<open>k\<close>; the shape of the value tensor, the
  shape and the entries of the gradient tensor, and every variable struct (so the
  gradient pointer and the GradMeta of \<open>v\<close>) are as before.
\<close>

theorem set_to_scalar_frame:
  assumes "value_ok h v" "gradient_apart h v"
  shows "\<exists>V h' xs. variables h v = Some V \<and> set_to_scalar v k h = (Inr (), h') \<and>
     tensor_entries h (tensor V) = Some xs \<and>
     tensor_entries h' (tensor V) = Some (replicate (length xs) k) \<and>
     tensor_shape h' (tensor V) = tensor_shape h (tensor V) \<and>
     variables h' = variables h \<and>
     tensor_shape h' (gradient V) = tensor_shape h (gradient V) \<and>
     tensor_entries h' (gradient V) = tensor_entries h (gradient V)"
proof -
  from assms(1) obtain V where V: "variables h v = Some V" "v \<noteq> NULL"
    and ok: "tensor_ok h (tensor V)"
    by (rule value_okE)
  from ok obtain T xs where T: "tensors h (tensor V) = Some T" "tensor V \<noteq> NULL"
    "buffers h (data T) = Some xs" "data T \<noteq> NULL"
    by (rule tensor_okE)
  from assms(2) V(1) T(1) have apart: "tensors h (gradient V) = Some G \<Longrightarrow> data T \<noteq> data G" for G
    by (simp add: gradient_apart_def)
  show ?thesis
    unfolding set_to_scalar_run [OF V T(1,2) T(3,4)] using V T apart
    by (auto simp: tensor_entries_def tensor_shape_def split: option.splits)
qed

theorem set_to_scalar_frame_witness:
  "variable_ok example_heap 22 \<and> value_ok example_heap 22 \<and> gradient_apart example_heap 22 \<and>
   (\<exists>V h' xs. variables example_heap 22 = Some V \<and> set_to_scalar 22 7 example_heap = (Inr (), h') \<and>
     tensor_entries example_heap (tensor V) = Some xs \<and>
     tensor_entries h' (tensor V) = Some (replicate (length xs) 7) \<and>
     tensor_shape h' (tensor V) = tensor_shape example_heap (tensor V) \<and>
     variables h' = variables example_heap \<and>
     tensor_shape h' (gradient V) = tensor_shape example_heap (gradient V) \<and>
     tensor_entries h' (gradient V) = tensor_entries example_heap (gradient V)) \<and>
   (\<exists>c h1. sum_variable 17 example_heap = (Inr c, h1) \<and> value_ok h1 c \<and> gradient_apart h1 c \<and>
     (\<exists>V h' xs. variables h1 c = Some V \<and> set_to_scalar c 7 h1 = (Inr (), h') \<and>
       tensor_entries h1 (tensor V) = Some xs \<and>
       tensor_entries h' (tensor V) = Some (replicate (length xs) 7) \<and>
       tensor_shape h' (tensor V) = tensor_shape h1 (tensor V) \<and>
       variables h' = variables h1 \<and>
       tensor_shape h' (gradient V) = tensor_shape h1 (gradient V) \<and>
       tensor_entries h' (gradient V) = tensor_entries h1 (gradient V)))"
proof -
  have ok: "variable_ok example_heap 22"
    by (rule example_heap_variable_ok)
  then have hyps: "value_ok example_heap 22" "gradient_apart example_heap 22"
    by (simp_all add: variable_ok_value_ok variable_ok_gradient_apart)
  have "value_ok example_heap 17"
    by (simp add: variable_ok_value_ok example_heap_variable_ok)
  from sum_variable_result [OF this] obtain c h1 C
    where run: "sum_variable 17 example_heap = (Inr c, h1)" "value_ok h1 c"
      "variables h1 c = Some C" "tensors h1 (gradient C) = None"
    by blast
  from run(2) obtain C' where "variables h1 c = Some C'" "tensor_ok h1 (tensor C')"
    by (rule value_okE)
  with run(3,4) have apart: "gradient_apart h1 c"
    by (auto simp: gradient_apart_def tensor_ok_def split: option.splits)
  from ok hyps set_to_scalar_frame [OF hyps, of 7] run(1,2) apart
    set_to_scalar_frame [OF run(2) apart, of 7]
  show ?thesis
    by blast
qed

end
